theory Spec2Isabelle
  imports Complex_Main
begin

section \<open>JavaScript values used by the pages\<close>

text \<open>
  A JavaScript number is modelled as a real or \<open>NaN\<close>. The only arithmetic the pages
  do is on time values of dates (integral numbers of milliseconds), where double
  arithmetic is exact; infinities are not modelled, no operation of the pages
  produces one.
\<close>

datatype jsnum = Num real | NaN

fun js_sub :: "jsnum \<Rightarrow> jsnum \<Rightarrow> jsnum" where
  "js_sub (Num a) (Num b) = Num (a - b)"
| "js_sub _ _ = NaN"

text \<open>The only divisor in the program is the non-zero constant \<open>1000 * 60 * 60 * 24\<close>.\<close>

fun js_div :: "jsnum \<Rightarrow> jsnum \<Rightarrow> jsnum" where
  "js_div (Num a) (Num b) = (if b = 0 then NaN else Num (a / b))"
| "js_div _ _ = NaN"

fun Math_ceil :: "jsnum \<Rightarrow> jsnum" where
  "Math_ceil (Num a) = Num (of_int \<lceil>a\<rceil>)"
| "Math_ceil NaN = NaN"

text \<open>\<open>a <= b\<close>: every comparison with \<open>NaN\<close> is false.\<close>

fun js_le :: "jsnum \<Rightarrow> jsnum \<Rightarrow> bool" where
  "js_le (Num a) (Num b) = (a \<le> b)"
| "js_le _ _ = False"


datatype jsval = Str string | Number jsnum | Arr "string list"

text \<open>An object literal or a table row: its keys with their values.\<close>

type_synonym obj = "(string \<times> jsval) list"

definition obj_get :: "obj \<Rightarrow> string \<Rightarrow> jsval option" where
  "obj_get ob k = map_of ob k"

text \<open>\<open>a || b\<close> on strings: the empty string is falsy.\<close>

definition or_else :: "string \<Rightarrow> string \<Rightarrow> string" where
  "or_else a b = (if a = [] then b else a)"

datatype error = Error (message: string)

datatype user = User (user_id: string) (email: string)

datatype session = Session (session_user: user)

section \<open>Requests, effects and the external collaborators\<close>

text \<open>
  What a page sends to the auth provider, the data store and the recommendation
  function. \<open>From_select t fs f asc\<close> is
  \<open>from(t).select('*').eq(..).order(f, {ascending: asc})\<close> with one pair in \<open>fs\<close> for
  each \<open>.eq(column, value)\<close>; \<open>From_delete t fs\<close> is \<open>from(t).delete().eq(..)\<close>.
\<close>

datatype request =
    Auth_getUser
  | Auth_getSession
  | Auth_onAuthStateChange
  | Auth_signOut
  | From_select string "(string \<times> jsval) list" string bool
  | From_insert string obj
  | From_delete string "(string \<times> jsval) list"
  | Functions_invoke string obj

datatype effect =
    Call request
  | Navigate string
  | Toast_error string
  | Toast_success string
  | Console_error string

text \<open>
  The collaborators are outside the repository: their answers are parameters. Every
  answer may depend on everything that happened before, so each takes the trace of
  effects so far, which ends with the request being answered. \<open>Date_parse\<close> is the
  time value of \<open>new Date(s)\<close> (\<open>NaN\<close> for an invalid date), \<open>parseFloat\<close> the
  runtime's function, and \<open>TypeError_message\<close> the text of the runtime's error for
  reading a property of \<open>null\<close>.
\<close>

record world =
  auth_getUser :: "effect list \<Rightarrow> user option"
  auth_getSession :: "effect list \<Rightarrow> session option"
  auth_signOut :: "effect list \<Rightarrow> error option"
  db_rows :: "effect list \<Rightarrow> obj list option \<times> error option"
  db_write :: "effect list \<Rightarrow> error option"
  functions_invoke :: "effect list \<Rightarrow> string option \<times> error option"
  Date_parse :: "string \<Rightarrow> jsnum"
  parseFloat :: "string \<Rightarrow> jsnum"
  TypeError_message :: string

definition calls :: "effect list \<Rightarrow> request list" where
  "calls tr = concat (map (\<lambda>e. case e of Call r \<Rightarrow> [r] | _ \<Rightarrow> []) tr)"

fun is_store_request :: "request \<Rightarrow> bool" where
  "is_store_request (From_select t fs f a) = True"
| "is_store_request (From_insert t ob) = True"
| "is_store_request (From_delete t fs) = True"
| "is_store_request _ = False"

fun is_select :: "request \<Rightarrow> bool" where
  "is_select (From_select t fs f a) = True"
| "is_select _ = False"

section \<open>The home page (Index): session guard and sign-out\<close>

record page =
  loading :: bool

record Index_state = page +
  user :: "user option"

definition Index_init :: Index_state where
  "Index_init = \<lparr>loading = True, user = None\<rparr>"

text \<open>
  The mount effect: \<open>getSession()\<close> is issued, the listener is subscribed, then the
  promise's callback runs with the session.
\<close>

definition Index_mount :: "world \<Rightarrow> effect list \<times> Index_state \<Rightarrow> effect list \<times> Index_state" where
  "Index_mount w = (\<lambda>(tr, p).
     let tr1 = tr @ [Call Auth_getSession];
         sess = auth_getSession w tr1;
         tr2 = tr1 @ [Call Auth_onAuthStateChange];
         p' = p\<lparr>user := map_option session_user sess, loading := False\<rparr>
     in case sess of
          None \<Rightarrow> (tr2 @ [Navigate ''/auth''], p')
        | Some s \<Rightarrow> (tr2, p'))"

text \<open>The listener passed to \<open>onAuthStateChange\<close>, run at each session change.\<close>

definition Index_listener :: "session option \<Rightarrow> effect list \<times> Index_state \<Rightarrow> effect list \<times> Index_state" where
  "Index_listener sess = (\<lambda>(tr, p).
     let p' = p\<lparr>user := map_option session_user sess\<rparr>
     in case sess of
          None \<Rightarrow> (tr @ [Navigate ''/auth''], p')
        | Some s \<Rightarrow> (tr, p'))"

definition handleSignOut :: "world \<Rightarrow> effect list \<times> Index_state \<Rightarrow> effect list \<times> Index_state" where
  "handleSignOut w = (\<lambda>(tr, p).
     let tr1 = tr @ [Call Auth_signOut]
     in case auth_signOut w tr1 of
          Some err \<Rightarrow> (tr1 @ [Toast_error ''Failed to sign out''], p)
        | None \<Rightarrow> (tr1 @ [Toast_success ''Signed out successfully'', Navigate ''/auth''], p))"

section \<open>The Trips page\<close>

record Trips_state = page +
  trips :: "obj list"

definition Trips_init :: Trips_state where
  "Trips_init = \<lparr>loading = True, trips = []\<rparr>"

text \<open>
  \<open>fetchTrips\<close> runs on mount. The \<open>return\<close> after \<open>navigate('/auth')\<close> is inside the
  \<open>try\<close>, so the \<open>finally\<close> block still clears \<open>loading\<close>.
\<close>

definition fetchTrips :: "world \<Rightarrow> effect list \<times> Trips_state \<Rightarrow> effect list \<times> Trips_state" where
  "fetchTrips w = (\<lambda>(tr, p).
     let tr1 = tr @ [Call Auth_getUser]
     in case auth_getUser w tr1 of
          None \<Rightarrow> (tr1 @ [Navigate ''/auth''], p\<lparr>loading := False\<rparr>)
        | Some u \<Rightarrow>
            (let tr2 = tr1 @ [Call (From_select ''trips'' [(''user_id'', Str (user_id u))]
                                     ''start_date'' False)]
            in case db_rows w tr2 of
                 (data, Some err) \<Rightarrow>
                   (tr2 @ [Console_error ''Error fetching trips:'',
                           Toast_error ''Failed to load trips''],
                    p\<lparr>loading := False\<rparr>)
               | (data, None) \<Rightarrow>
                   (tr2, p\<lparr>trips := (case data of None \<Rightarrow> [] | Some rows \<Rightarrow> rows),
                           loading := False\<rparr>)))"

definition deleteTrip :: "world \<Rightarrow> string \<Rightarrow> effect list \<times> Trips_state \<Rightarrow> effect list \<times> Trips_state" where
  "deleteTrip w i = (\<lambda>(tr, p).
     let tr1 = tr @ [Call (From_delete ''trips'' [(''id'', Str i)])]
     in case db_write w tr1 of
          Some err \<Rightarrow>
            (tr1 @ [Console_error ''Error deleting trip:'', Toast_error ''Failed to delete trip''], p)
        | None \<Rightarrow>
            (tr1 @ [Toast_success ''Trip deleted''],
             p\<lparr>trips := filter (\<lambda>trip. obj_get trip ''id'' \<noteq> Some (Str i)) (trips p)\<rparr>))"

section \<open>The Diary page\<close>

record dialog_page = page +
  dialogOpen :: bool
  location :: string

record Diary_state = dialog_page +
  entries :: "obj list"
  title :: string
  content :: string
  entryDate :: string

text \<open>The initial entry date is today's date, read from the clock: a parameter.\<close>

definition Diary_init :: "string \<Rightarrow> Diary_state" where
  "Diary_init today = \<lparr>loading = True, dialogOpen = False, location = [],
     entries = [], title = [], content = [], entryDate = today\<rparr>"

definition fetchEntries :: "world \<Rightarrow> effect list \<times> Diary_state \<Rightarrow> effect list \<times> Diary_state" where
  "fetchEntries w = (\<lambda>(tr, p).
     let tr1 = tr @ [Call Auth_getUser]
     in case auth_getUser w tr1 of
          None \<Rightarrow> (tr1 @ [Navigate ''/auth''], p\<lparr>loading := False\<rparr>)
        | Some u \<Rightarrow>
            (let tr2 = tr1 @ [Call (From_select ''diary_entries'' [(''user_id'', Str (user_id u))]
                                     ''entry_date'' False)]
            in case db_rows w tr2 of
                 (data, Some err) \<Rightarrow>
                   (tr2 @ [Console_error ''Error fetching entries:'',
                           Toast_error ''Failed to load diary entries''],
                    p\<lparr>loading := False\<rparr>)
               | (data, None) \<Rightarrow>
                   (tr2, p\<lparr>entries := (case data of None \<Rightarrow> [] | Some rows \<Rightarrow> rows),
                           loading := False\<rparr>)))"

text \<open>
  \<open>createEntry\<close> ends its success path with a call of \<open>fetchEntries()\<close>, which catches
  its own errors.
\<close>

definition createEntry :: "world \<Rightarrow> effect list \<times> Diary_state \<Rightarrow> effect list \<times> Diary_state" where
  "createEntry w = (\<lambda>(tr, p).
     if title p = [] \<or> content p = [] then
       (tr @ [Toast_error ''Please fill in title and content''], p)
     else
       let tr1 = tr @ [Call Auth_getUser]
       in case auth_getUser w tr1 of
            None \<Rightarrow>
              (tr1 @ [Console_error ''Error creating entry:'',
                      Toast_error (or_else ''Not authenticated'' ''Failed to create entry'')], p)
          | Some u \<Rightarrow>
              (let tr2 = tr1 @ [Call (From_insert ''diary_entries''
                                 [(''user_id'', Str (user_id u)),
                                  (''title'', Str (title p)),
                                  (''content'', Str (content p)),
                                  (''location'', Str (location p)),
                                  (''entry_date'', Str (entryDate p))])]
              in case db_write w tr2 of
                   Some err \<Rightarrow>
                     (tr2 @ [Console_error ''Error creating entry:'',
                             Toast_error (or_else (message err) ''Failed to create entry'')], p)
                 | None \<Rightarrow>
                     fetchEntries w
                       (tr2 @ [Toast_success ''Entry created!''],
                        p\<lparr>dialogOpen := False, title := [], content := [], location := []\<rparr>)))"

definition deleteEntry :: "world \<Rightarrow> string \<Rightarrow> effect list \<times> Diary_state \<Rightarrow> effect list \<times> Diary_state" where
  "deleteEntry w i = (\<lambda>(tr, p).
     let tr1 = tr @ [Call (From_delete ''diary_entries'' [(''id'', Str i)])]
     in case db_write w tr1 of
          Some err \<Rightarrow>
            (tr1 @ [Console_error ''Error deleting entry:'', Toast_error ''Failed to delete entry''], p)
        | None \<Rightarrow>
            (tr1 @ [Toast_success ''Entry deleted''],
             p\<lparr>entries := filter (\<lambda>entry. obj_get entry ''id'' \<noteq> Some (Str i)) (entries p)\<rparr>))"

section \<open>The Discover page\<close>

record Discover_state = dialog_page +
  destinations :: "obj list"
  name :: string
  description :: string
  category :: string

definition Discover_init :: Discover_state where
  "Discover_init = \<lparr>loading = True, dialogOpen = False, location = [],
     destinations = [], name = [], description = [], category = []\<rparr>"

definition fetchDestinations :: "world \<Rightarrow> effect list \<times> Discover_state \<Rightarrow> effect list \<times> Discover_state" where
  "fetchDestinations w = (\<lambda>(tr, p).
     let tr1 = tr @ [Call Auth_getUser]
     in case auth_getUser w tr1 of
          None \<Rightarrow> (tr1 @ [Navigate ''/auth''], p\<lparr>loading := False\<rparr>)
        | Some u \<Rightarrow>
            (let tr2 = tr1 @ [Call (From_select ''saved_destinations''
                                     [(''user_id'', Str (user_id u))] ''created_at'' False)]
            in case db_rows w tr2 of
                 (data, Some err) \<Rightarrow>
                   (tr2 @ [Console_error ''Error fetching destinations:'',
                           Toast_error ''Failed to load destinations''],
                    p\<lparr>loading := False\<rparr>)
               | (data, None) \<Rightarrow>
                   (tr2, p\<lparr>destinations := (case data of None \<Rightarrow> [] | Some rows \<Rightarrow> rows),
                           loading := False\<rparr>)))"

definition saveDestination :: "world \<Rightarrow> effect list \<times> Discover_state \<Rightarrow> effect list \<times> Discover_state" where
  "saveDestination w = (\<lambda>(tr, p).
     if name p = [] \<or> location p = [] then
       (tr @ [Toast_error ''Please fill in name and location''], p)
     else
       let tr1 = tr @ [Call Auth_getUser]
       in case auth_getUser w tr1 of
            None \<Rightarrow>
              (tr1 @ [Console_error ''Error saving destination:'',
                      Toast_error (or_else ''Not authenticated'' ''Failed to save destination'')], p)
          | Some u \<Rightarrow>
              (let tr2 = tr1 @ [Call (From_insert ''saved_destinations''
                                 [(''user_id'', Str (user_id u)),
                                  (''destination_name'', Str (name p)),
                                  (''location'', Str (location p)),
                                  (''description'', Str (description p)),
                                  (''category'', Str (category p)),
                                  (''notes'', Str [])])]
              in case db_write w tr2 of
                   Some err \<Rightarrow>
                     (tr2 @ [Console_error ''Error saving destination:'',
                             Toast_error (or_else (message err) ''Failed to save destination'')], p)
                 | None \<Rightarrow>
                     fetchDestinations w
                       (tr2 @ [Toast_success ''Destination saved!''],
                        p\<lparr>dialogOpen := False, name := [], location := [],
                          description := [], category := []\<rparr>)))"

definition deleteDestination :: "world \<Rightarrow> string \<Rightarrow> effect list \<times> Discover_state \<Rightarrow> effect list \<times> Discover_state" where
  "deleteDestination w i = (\<lambda>(tr, p).
     let tr1 = tr @ [Call (From_delete ''saved_destinations'' [(''id'', Str i)])]
     in case db_write w tr1 of
          Some err \<Rightarrow>
            (tr1 @ [Console_error ''Error deleting destination:'',
                    Toast_error ''Failed to remove destination''], p)
        | None \<Rightarrow>
            (tr1 @ [Toast_success ''Destination removed''],
             p\<lparr>destinations :=
                 filter (\<lambda>dest. obj_get dest ''id'' \<noteq> Some (Str i)) (destinations p)\<rparr>))"

section \<open>The PlanTrip page\<close>

record PlanTrip_state = page +
  destination :: string
  startDate :: string
  endDate :: string
  budget :: string
  travelType :: string
  selectedInterests :: "string list"
  aiRecommendations :: string

definition PlanTrip_init :: PlanTrip_state where
  "PlanTrip_init = \<lparr>loading = False, destination = [], startDate = [], endDate = [],
     budget = [], travelType = [], selectedInterests = [], aiRecommendations = []\<rparr>"

definition toggleInterest :: "string \<Rightarrow> PlanTrip_state \<Rightarrow> PlanTrip_state" where
  "toggleInterest interest p =
     p\<lparr>selectedInterests :=
         (if interest \<in> set (selectedInterests p)
          then filter (\<lambda>i. i \<noteq> interest) (selectedInterests p)
          else selectedInterests p @ [interest])\<rparr>"

definition calculateDays :: "world \<Rightarrow> PlanTrip_state \<Rightarrow> jsnum" where
  "calculateDays w p =
     (if startDate p = [] \<or> endDate p = [] then Num 0
      else
        let start = Date_parse w (startDate p);
            end = Date_parse w (endDate p)
        in Math_ceil (js_div (js_sub end start) (Num (1000 * 60 * 60 * 24))))"

text \<open>
  The answer of the recommendation function is \<open>(data, error)\<close>, \<open>data\<close> being the
  \<open>recommendations\<close> text of the response or \<open>None\<close> for a \<open>null\<close> response, where
  reading \<open>data.recommendations\<close> throws the runtime's TypeError into the \<open>catch\<close>.
\<close>

definition handleGetRecommendations ::
    "world \<Rightarrow> effect list \<times> PlanTrip_state \<Rightarrow> effect list \<times> PlanTrip_state" where
  "handleGetRecommendations w = (\<lambda>(tr, p).
     if destination p = [] \<or> budget p = [] \<or> travelType p = [] \<or> length (selectedInterests p) = 0
     then (tr @ [Toast_error ''Please fill in all fields''], p)
     else
       let days = calculateDays w p
       in if js_le days (Num 0) then
            (tr @ [Toast_error ''End date must be after start date''], p)
          else
            let tr1 = tr @ [Call (Functions_invoke ''travel-recommendations''
                               [(''destination'', Str (destination p)),
                                (''budget'', Number (parseFloat w (budget p))),
                                (''travelType'', Str (travelType p)),
                                (''interests'', Arr (selectedInterests p)),
                                (''days'', Number days)])]
            in case functions_invoke w tr1 of
                 (data, Some err) \<Rightarrow>
                   (tr1 @ [Console_error ''Error getting recommendations:'',
                           Toast_error (or_else (message err) ''Failed to get recommendations'')],
                    p\<lparr>loading := False\<rparr>)
               | (None, None) \<Rightarrow>
                   (tr1 @ [Console_error ''Error getting recommendations:'',
                           Toast_error (or_else (TypeError_message w) ''Failed to get recommendations'')],
                    p\<lparr>loading := False\<rparr>)
               | (Some recommendations, None) \<Rightarrow>
                   (tr1 @ [Toast_success ''AI recommendations generated!''],
                    p\<lparr>aiRecommendations := recommendations, loading := False\<rparr>))"

definition handleSaveTrip ::
    "world \<Rightarrow> effect list \<times> PlanTrip_state \<Rightarrow> effect list \<times> PlanTrip_state" where
  "handleSaveTrip w = (\<lambda>(tr, p).
     if destination p = [] \<or> startDate p = [] \<or> endDate p = [] \<or> budget p = []
     then (tr @ [Toast_error ''Please fill in all required fields''], p)
     else
       let tr1 = tr @ [Call Auth_getUser]
       in case auth_getUser w tr1 of
            None \<Rightarrow>
              (tr1 @ [Console_error ''Error saving trip:'',
                      Toast_error (or_else ''Not authenticated'' ''Failed to save trip'')],
               p\<lparr>loading := False\<rparr>)
          | Some u \<Rightarrow>
              (let tr2 = tr1 @ [Call (From_insert ''trips''
                                 [(''user_id'', Str (user_id u)),
                                  (''destination'', Str (destination p)),
                                  (''start_date'', Str (startDate p)),
                                  (''end_date'', Str (endDate p)),
                                  (''budget'', Number (parseFloat w (budget p))),
                                  (''travel_type'', Str (travelType p)),
                                  (''notes'', Str (aiRecommendations p)),
                                  (''status'', Str ''planned'')])]
              in case db_write w tr2 of
                   Some err \<Rightarrow>
                     (tr2 @ [Console_error ''Error saving trip:'',
                             Toast_error (or_else (message err) ''Failed to save trip'')],
                      p\<lparr>loading := False\<rparr>)
                 | None \<Rightarrow>
                     (tr2 @ [Toast_success ''Trip saved successfully!'', Navigate ''/trips''],
                      p\<lparr>loading := False\<rparr>)))"

section \<open>What each page does on mount\<close>

text \<open>
  Index registers the effect modelled by \<open>Index_mount\<close>; Trips, Diary and Discover
  each register an effect that calls their fetch function. The PlanTrip component
  imports and uses \<open>useState\<close> only: it registers no effect, so nothing runs on mount.
\<close>

datatype page_name = Index | Trips | Diary | Discover | PlanTrip

definition mount_effects :: "world \<Rightarrow> string \<Rightarrow> page_name \<Rightarrow> effect list" where
  "mount_effects w today pg =
     (case pg of
        Index \<Rightarrow> fst (Index_mount w ([], Index_init))
      | Trips \<Rightarrow> fst (fetchTrips w ([], Trips_init))
      | Diary \<Rightarrow> fst (fetchEntries w ([], Diary_init today))
      | Discover \<Rightarrow> fst (fetchDestinations w ([], Discover_init))
      | PlanTrip \<Rightarrow> [])"

section \<open>Dates written by the date controls\<close>

text \<open>
  The date fields are \<open><Input type="date">\<close>, whose value is empty or a date
  \<open>YYYY-MM-DD\<close>. ECMAScript reads such a string as midnight UTC of that day:
  \<open>MakeDay\<close> days after 1970-01-01, \<open>msPerDay\<close> milliseconds each. \<open>iso_Date_parse\<close>
  is that reading, with \<open>NaN\<close> for every other string (what a runtime makes of other
  formats is its own business, so the pages are verified for any \<open>Date_parse\<close>).
\<close>

definition digit :: "char \<Rightarrow> int option" where
  "digit c = (let n = (of_char c :: nat) in if 48 \<le> n \<and> n \<le> 57 then Some (int n - 48) else None)"

fun number_of :: "int \<Rightarrow> string \<Rightarrow> int option" where
  "number_of acc [] = Some acc"
| "number_of acc (c # cs) =
     (case digit c of None \<Rightarrow> None | Some v \<Rightarrow> number_of (10 * acc + v) cs)"

fun iso_date_fields :: "string \<Rightarrow> (int \<times> int \<times> int) option" where
  "iso_date_fields [y1, y2, y3, y4, h1, m1, m2, h2, d1, d2] =
     (if h1 = CHR ''-'' \<and> h2 = CHR ''-'' then
        (case number_of 0 [y1, y2, y3, y4] of
           None \<Rightarrow> None
         | Some y \<Rightarrow>
             (case number_of 0 [m1, m2] of
                None \<Rightarrow> None
              | Some m \<Rightarrow>
                  (case number_of 0 [d1, d2] of
                     None \<Rightarrow> None
                   | Some d \<Rightarrow> Some (y, m, d))))
      else None)"
| "iso_date_fields _ = None"

definition DayFromYear :: "int \<Rightarrow> int" where
  "DayFromYear y =
     365 * (y - 1970) + (y - 1969) div 4 - (y - 1901) div 100 + (y - 1601) div 400"

definition InLeapYear :: "int \<Rightarrow> bool" where
  "InLeapYear y = (y mod 4 = 0 \<and> (0 < y mod 100 \<or> y mod 400 = 0))"

definition DaysInMonth :: "int \<Rightarrow> int \<Rightarrow> int" where
  "DaysInMonth y m =
     (if m = 2 then (if InLeapYear y then 29 else 28)
      else if m = 4 \<or> m = 6 \<or> m = 9 \<or> m = 11 then 30
      else 31)"

definition MakeDay :: "int \<Rightarrow> int \<Rightarrow> int \<Rightarrow> int" where
  "MakeDay y m d = DayFromYear y + sum_list (map (DaysInMonth y) [1..m - 1]) + (d - 1)"

definition msPerDay :: int where
  "msPerDay = 86400000"

definition valid_date :: "int \<times> int \<times> int \<Rightarrow> bool" where
  "valid_date = (\<lambda>(y, m, d). 1 \<le> m \<and> m \<le> 12 \<and> 1 \<le> d \<and> d \<le> DaysInMonth y m)"

definition iso_Date_parse :: "string \<Rightarrow> jsnum" where
  "iso_Date_parse s =
     (case iso_date_fields s of
        None \<Rightarrow> NaN
      | Some (y, m, d) \<Rightarrow>
          if valid_date (y, m, d) then Num (of_int (MakeDay y m d * msPerDay)) else NaN)"


text \<open>Calendar order of dates: by year, then month, then day.\<close>

definition date_le :: "int \<times> int \<times> int \<Rightarrow> int \<times> int \<times> int \<Rightarrow> bool" where
  "date_le = (\<lambda>(y1, m1, d1) (y2, m2, d2).
     y1 < y2 \<or> (y1 = y2 \<and> (m1 < m2 \<or> (m1 = m2 \<and> d1 \<le> d2))))"

text \<open>The day number of a date, counted from 1970-01-01.\<close>

definition day_number :: "int \<times> int \<times> int \<Rightarrow> int" where
  "day_number = (\<lambda>(y, m, d). MakeDay y m d)"

section \<open>Example collaborators and page states\<close>

text \<open>\<open>parseFloat\<close> on a string of decimal digits, for the examples.\<close>

definition decimal_parseFloat :: "string \<Rightarrow> jsnum" where
  "decimal_parseFloat s =
     (if s = [] then NaN else case number_of 0 s of None \<Rightarrow> NaN | Some n \<Rightarrow> Num (of_int n))"

definition demo_user :: user where
  "demo_user = User ''u1'' ''u1@example.org''"

text \<open>A world with a session in which every request succeeds; the tables are empty.\<close>

definition signed_in :: world where
  "signed_in =
     \<lparr>auth_getUser = (\<lambda>tr. Some demo_user),
      auth_getSession = (\<lambda>tr. Some (Session demo_user)),
      auth_signOut = (\<lambda>tr. None),
      db_rows = (\<lambda>tr. (Some [], None)),
      db_write = (\<lambda>tr. None),
      functions_invoke = (\<lambda>tr. (Some ''Day 1: ...'', None)),
      Date_parse = iso_Date_parse,
      parseFloat = decimal_parseFloat,
      TypeError_message = ''Cannot read properties of null''\<rparr>"

definition signed_out :: world where
  "signed_out = signed_in\<lparr>auth_getUser := (\<lambda>tr. None), auth_getSession := (\<lambda>tr. None)\<rparr>"

definition signOut_fails :: world where
  "signOut_fails = signed_in\<lparr>auth_signOut := (\<lambda>tr. Some (Error ''network error''))\<rparr>"

text \<open>
  A world whose session is gone after the first user query of a run, and one whose
  store accepts writes but fails every select.
\<close>

definition session_lost :: world where
  "session_lost =
     signed_in\<lparr>auth_getUser := (\<lambda>tr. if tr = [Call Auth_getUser] then Some demo_user else None)\<rparr>"

definition list_fails :: world where
  "list_fails = signed_in\<lparr>db_rows := (\<lambda>tr. (None, Some (Error ''timeout'')))\<rparr>"

definition store_fails :: world where
  "store_fails =
     signed_in\<lparr>db_write := (\<lambda>tr. Some (Error ''permission denied'')),
               db_rows := (\<lambda>tr. (None, Some (Error ''permission denied'')))\<rparr>"

text \<open>
  A single-table store that answers a select with the rows matching every \<open>.eq\<close>
  filter of the request, and a world whose lists come from it. The table holds rows
  of two users.
\<close>

definition matches :: "(string \<times> jsval) list \<Rightarrow> obj \<Rightarrow> bool" where
  "matches fs r = list_all (\<lambda>(c, v). obj_get r c = Some v) fs"

definition filtering_store :: "obj list \<Rightarrow> effect list \<Rightarrow> obj list option \<times> error option" where
  "filtering_store rows tr =
     (if tr = [] then (None, Some (Error ''no request''))
      else case last tr of
             Call (From_select t fs f a) \<Rightarrow> (Some (filter (matches fs) rows), None)
           | _ \<Rightarrow> (None, Some (Error ''not a select'')))"

definition two_users_table :: "obj list" where
  "two_users_table =
     [[(''id'', Str ''t1''), (''user_id'', Str ''u1''), (''destination'', Str ''Tokyo'')],
      [(''id'', Str ''t2''), (''user_id'', Str ''u2''), (''destination'', Str ''Lima'')]]"

definition shared_store :: world where
  "shared_store = signed_in\<lparr>db_rows := filtering_store two_users_table\<rparr>"

text \<open>States of the PlanTrip form used in the examples.\<close>

definition filled_form :: PlanTrip_state where
  "filled_form =
     \<lparr>loading = False, destination = ''Tokyo, Japan'', startDate = ''2024-01-01'',
      endDate = ''2024-01-05'', budget = ''1000'', travelType = ''solo'',
      selectedInterests = [''Food'', ''Culture''], aiRecommendations = ''Day 1: ...''\<rparr>"

definition reversed_form :: PlanTrip_state where
  "reversed_form = filled_form\<lparr>startDate := ''2024-01-05'', endDate := ''2024-01-01'', travelType := []\<rparr>"

definition backdated_form :: PlanTrip_state where
  "backdated_form = filled_form\<lparr>startDate := ''2024-01-05'', endDate := ''2024-01-01''\<rparr>"


definition stale_trips :: Trips_state where
  "stale_trips = \<lparr>loading = False, trips = [[(''id'', Str ''t1''), (''user_id'', Str ''u1'')]]\<rparr>"

section \<open>Reading traces and stating the properties\<close>

text \<open>The effects a handler run adds to the trace it started from.\<close>

definition issued :: "effect list \<Rightarrow> effect list \<times> 'a \<Rightarrow> effect list" where
  "issued tr res = drop (length tr) (fst res)"

text \<open>
  A page has no session when the query its guard uses finds none: Index asks
  \<open>getSession\<close>, the other pages ask \<open>getUser\<close>.
\<close>

definition no_session :: "world \<Rightarrow> page_name \<Rightarrow> bool" where
  "no_session w pg =
     (case pg of
        Index \<Rightarrow> auth_getSession w [Call Auth_getSession] = None
      | _ \<Rightarrow> auth_getUser w [Call Auth_getUser] = None)"

text \<open>A store honours the filters of a select when every row it returns matches them.\<close>

definition honours_filters :: "world \<Rightarrow> bool" where
  "honours_filters w =
     (\<forall>tr t fs f a rows.
        db_rows w (tr @ [Call (From_select t fs f a)]) = (Some rows, None) \<longrightarrow>
        list_all (matches fs) rows)"

text \<open>
  Get Recommendations is rejected by the validation when all it does is show one of
  its two validation notifications. \<open>recommendation_body\<close> is the body it sends
  otherwise.
\<close>

definition validation_rejects :: "world \<Rightarrow> effect list \<Rightarrow> PlanTrip_state \<Rightarrow> bool" where
  "validation_rejects w tr p =
     (handleGetRecommendations w (tr, p) = (tr @ [Toast_error ''Please fill in all fields''], p)
      \<or> handleGetRecommendations w (tr, p) = (tr @ [Toast_error ''End date must be after start date''], p))"


definition without_id :: "string \<Rightarrow> obj list \<Rightarrow> obj list" where
  "without_id i rows = filter (\<lambda>r. obj_get r ''id'' \<noteq> Some (Str i)) rows"

text \<open>
  The rows the Diary and Discover pages insert, and the select every page sends to
  list a table: one filter, \<open>user_id\<close> equal to the id of the user, in descending
  order of the given column.
\<close>

definition entry_row :: "user \<Rightarrow> Diary_state \<Rightarrow> obj" where
  "entry_row u p =
     [(''user_id'', Str (user_id u)), (''title'', Str (title p)), (''content'', Str (content p)),
      (''location'', Str (location p)), (''entry_date'', Str (entryDate p))]"

definition destination_row :: "user \<Rightarrow> Discover_state \<Rightarrow> obj" where
  "destination_row u p =
     [(''user_id'', Str (user_id u)), (''destination_name'', Str (name p)),
      (''location'', Str (location p)), (''description'', Str (description p)),
      (''category'', Str (category p)), (''notes'', Str [])]"

definition list_request :: "string \<Rightarrow> string \<Rightarrow> user \<Rightarrow> request" where
  "list_request t f u = From_select t [(''user_id'', Str (user_id u))] f False"

text \<open>\<open>data || []\<close>.\<close>

definition or_empty :: "obj list option \<Rightarrow> obj list" where
  "or_empty data = (case data of None \<Rightarrow> [] | Some rows \<Rightarrow> rows)"

text \<open>
  The trace of an insert handler, started from \<open>tr\<close>, once the insert of \<open>row\<close> into
  table \<open>t\<close> has succeeded and the success notification \<open>msg\<close> has been shown.
\<close>

definition after_insert :: "effect list \<Rightarrow> string \<Rightarrow> obj \<Rightarrow> string \<Rightarrow> effect list" where
  "after_insert tr t row msg = tr @ [Call Auth_getUser, Call (From_insert t row), Toast_success msg]"

text \<open>States of the Diary and Discover dialogs used in the examples.\<close>

definition draft_entry :: Diary_state where
  "draft_entry =
     \<lparr>loading = False, dialogOpen = True, location = ''Kyoto'',
      entries = [[(''id'', Str ''e0''), (''user_id'', Str ''u1'')]],
      title = ''Day one'', content = ''Arrived.'', entryDate = ''2024-01-01''\<rparr>"

definition draft_destination :: Discover_state where
  "draft_destination =
     \<lparr>loading = False, dialogOpen = True, location = ''Peru'',
      destinations = [], name = ''Machu Picchu'', description = [], category = []\<rparr>"

section \<open>Basic facts about traces and handlers\<close>

lemma calls_simps [simp]:
  "calls [] = []"
  "calls (Call r # tr) = r # calls tr"
  "calls (Navigate s # tr) = calls tr"
  "calls (Toast_error s # tr) = calls tr"
  "calls (Toast_success s # tr) = calls tr"
  "calls (Console_error s # tr) = calls tr"
  "calls (tr @ tr') = calls tr @ calls tr'"
  by (simp_all add: calls_def)

lemma issued_append [simp]: "issued tr (tr @ fx, p) = fx"
  by (simp add: issued_def)

lemma fetchTrips_no_user:
  "auth_getUser w (tr @ [Call Auth_getUser]) = None \<Longrightarrow>
   fetchTrips w (tr, p) = (tr @ [Call Auth_getUser, Navigate ''/auth''], p\<lparr>loading := False\<rparr>)"
  by (simp add: fetchTrips_def)

lemma fetchEntries_no_user:
  "auth_getUser w (tr @ [Call Auth_getUser]) = None \<Longrightarrow>
   fetchEntries w (tr, p) = (tr @ [Call Auth_getUser, Navigate ''/auth''], p\<lparr>loading := False\<rparr>)"
  by (simp add: fetchEntries_def)

lemma fetchDestinations_no_user:
  "auth_getUser w (tr @ [Call Auth_getUser]) = None \<Longrightarrow>
   fetchDestinations w (tr, p) = (tr @ [Call Auth_getUser, Navigate ''/auth''], p\<lparr>loading := False\<rparr>)"
  by (simp add: fetchDestinations_def)

lemma handleSaveTrip_no_user:
  "destination p \<noteq> [] \<Longrightarrow> startDate p \<noteq> [] \<Longrightarrow> endDate p \<noteq> [] \<Longrightarrow> budget p \<noteq> [] \<Longrightarrow>
   auth_getUser w (tr @ [Call Auth_getUser]) = None \<Longrightarrow>
   handleSaveTrip w (tr, p) =
     (tr @ [Call Auth_getUser, Console_error ''Error saving trip:'', Toast_error ''Not authenticated''],
      p\<lparr>loading := False\<rparr>)"
  by (simp add: handleSaveTrip_def or_else_def)

lemma handleSaveTrip_invalid:
  "destination p = [] \<or> startDate p = [] \<or> endDate p = [] \<or> budget p = [] \<Longrightarrow>
   handleSaveTrip w (tr, p) = (tr @ [Toast_error ''Please fill in all required fields''], p)"
  by (simp add: handleSaveTrip_def)

lemma handleSaveTrip_user:
  "destination p \<noteq> [] \<Longrightarrow> startDate p \<noteq> [] \<Longrightarrow> endDate p \<noteq> [] \<Longrightarrow> budget p \<noteq> [] \<Longrightarrow>
   auth_getUser w (tr @ [Call Auth_getUser]) = Some u \<Longrightarrow>
   handleSaveTrip w (tr, p) =
     (let row = [(''user_id'', Str (user_id u)),
                 (''destination'', Str (destination p)),
                 (''start_date'', Str (startDate p)),
                 (''end_date'', Str (endDate p)),
                 (''budget'', Number (parseFloat w (budget p))),
                 (''travel_type'', Str (travelType p)),
                 (''notes'', Str (aiRecommendations p)),
                 (''status'', Str ''planned'')];
          tr2 = tr @ [Call Auth_getUser, Call (From_insert ''trips'' row)]
      in case db_write w tr2 of
           Some err \<Rightarrow>
             (tr2 @ [Console_error ''Error saving trip:'',
                     Toast_error (or_else (message err) ''Failed to save trip'')],
              p\<lparr>loading := False\<rparr>)
         | None \<Rightarrow>
             (tr2 @ [Toast_success ''Trip saved successfully!'', Navigate ''/trips''],
              p\<lparr>loading := False\<rparr>))"
  by (simp add: handleSaveTrip_def Let_def)

section \<open>The session guard (claim C1)\<close>

text \<open>
  Claim C1 says that every page, PlanTrip included, runs the session guard on mount
  and, without a session, fetches nothing and navigates to \<open>/auth\<close>. PlanTrip
  registers no mount effect, so on the page as a whole the claim fails:
\<close>

theorem PlanTrip_mount_counterexample:
  "no_session signed_out PlanTrip
   \<and> Navigate ''/auth'' \<notin> set (mount_effects signed_out ''2024-01-01'' PlanTrip)
   \<and> Call Auth_getUser \<notin> set (mount_effects signed_out ''2024-01-01'' PlanTrip)"
  by (simp add: no_session_def signed_out_def signed_in_def mount_effects_def)

text \<open>
  C1 as amended: on Index, Trips, Diary and Discover, mounting without a session
  navigates to \<open>/auth\<close> and sends no request to the store. Mounting PlanTrip has no
  effect at all; its only access to the store, Save Trip, asks for the user first and,
  when there is none, sends nothing to the store and does not navigate to \<open>/auth\<close>:
  once destination, dates and budget are filled in, it shows "Not authenticated".
\<close>

theorem mount_guard_except_PlanTrip:
  "(pg \<noteq> PlanTrip \<longrightarrow> no_session w pg \<longrightarrow>
      Navigate ''/auth'' \<in> set (mount_effects w today pg)
      \<and> \<not> list_ex is_store_request (calls (mount_effects w today pg)))
   \<and> mount_effects w today PlanTrip = []
   \<and> (auth_getUser w (tr @ [Call Auth_getUser]) = None \<longrightarrow>
        \<not> list_ex is_store_request (calls (issued tr (handleSaveTrip w (tr, p))))
        \<and> Navigate ''/auth'' \<notin> set (issued tr (handleSaveTrip w (tr, p)))
        \<and> (destination p \<noteq> [] \<longrightarrow> startDate p \<noteq> [] \<longrightarrow> endDate p \<noteq> [] \<longrightarrow> budget p \<noteq> [] \<longrightarrow>
             issued tr (handleSaveTrip w (tr, p)) =
               [Call Auth_getUser, Console_error ''Error saving trip:'',
                Toast_error ''Not authenticated'']))"
proof (intro conjI impI)
  assume "pg \<noteq> PlanTrip" and ns: "no_session w pg"
  then show "Navigate ''/auth'' \<in> set (mount_effects w today pg)"
    by (cases pg)
       (simp_all add: mount_effects_def no_session_def Index_mount_def
          fetchTrips_no_user [of w "[]", simplified] fetchEntries_no_user [of w "[]", simplified]
          fetchDestinations_no_user [of w "[]", simplified])
  from \<open>pg \<noteq> PlanTrip\<close> ns
  show "\<not> list_ex is_store_request (calls (mount_effects w today pg))"
    by (cases pg)
       (simp_all add: mount_effects_def no_session_def Index_mount_def
          fetchTrips_no_user [of w "[]", simplified] fetchEntries_no_user [of w "[]", simplified]
          fetchDestinations_no_user [of w "[]", simplified])
next
  show "mount_effects w today PlanTrip = []"
    by (simp add: mount_effects_def)
next
  assume nu: "auth_getUser w (tr @ [Call Auth_getUser]) = None"
  show "\<not> list_ex is_store_request (calls (issued tr (handleSaveTrip w (tr, p))))"
  proof (cases "destination p = [] \<or> startDate p = [] \<or> endDate p = [] \<or> budget p = []")
    case True
    then show ?thesis by (simp add: handleSaveTrip_invalid)
  next
    case False
    with nu show ?thesis by (simp add: handleSaveTrip_no_user)
  qed
  show "Navigate ''/auth'' \<notin> set (issued tr (handleSaveTrip w (tr, p)))"
  proof (cases "destination p = [] \<or> startDate p = [] \<or> endDate p = [] \<or> budget p = []")
    case True
    then show ?thesis by (simp add: handleSaveTrip_invalid)
  next
    case False
    with nu show ?thesis by (simp add: handleSaveTrip_no_user)
  qed
  assume "destination p \<noteq> []" "startDate p \<noteq> []" "endDate p \<noteq> []" "budget p \<noteq> []"
  with nu show "issued tr (handleSaveTrip w (tr, p)) =
      [Call Auth_getUser, Console_error ''Error saving trip:'', Toast_error ''Not authenticated'']"
    by (simp add: handleSaveTrip_no_user)
qed

theorem mount_guard_except_PlanTrip_witness:
  "Diary \<noteq> PlanTrip \<and> no_session signed_out Diary
   \<and> Navigate ''/auth'' \<in> set (mount_effects signed_out ''2024-01-01'' Diary)
   \<and> \<not> list_ex is_store_request (calls (mount_effects signed_out ''2024-01-01'' Diary))
   \<and> auth_getUser signed_out ([] @ [Call Auth_getUser]) = None
   \<and> \<not> list_ex is_store_request (calls (issued [] (handleSaveTrip signed_out ([], filled_form))))
   \<and> Navigate ''/auth'' \<notin> set (issued [] (handleSaveTrip signed_out ([], filled_form)))
   \<and> destination filled_form \<noteq> [] \<and> startDate filled_form \<noteq> []
   \<and> endDate filled_form \<noteq> [] \<and> budget filled_form \<noteq> []
   \<and> issued [] (handleSaveTrip signed_out ([], filled_form)) =
        [Call Auth_getUser, Console_error ''Error saving trip:'', Toast_error ''Not authenticated'']"
  using mount_guard_except_PlanTrip [of Diary signed_out "''2024-01-01''" "[]" filled_form]
  by (simp add: no_session_def signed_out_def signed_in_def filled_form_def)

section \<open>Sign-out (claim C2)\<close>

text \<open>
  Claim C2 says that the sign-out handler navigates to \<open>/auth\<close> whatever the outcome
  of \<open>signOut\<close>. The \<open>navigate\<close> call is in the \<open>else\<close> branch only; when \<open>signOut\<close>
  reports an error no navigation happens:
\<close>

theorem handleSignOut_failure_counterexample:
  "auth_signOut signOut_fails [Call Auth_signOut] = Some (Error ''network error'')
   \<and> Navigate ''/auth'' \<notin> set (issued [] (handleSignOut signOut_fails ([], Index_init)))"
  by (simp add: handleSignOut_def signOut_fails_def signed_in_def issued_def)

text \<open>
  C2 as amended: both outcomes show one notification; on success it is
  "Signed out successfully" and is followed by the navigation to \<open>/auth\<close>, on failure
  it is "Failed to sign out" and nothing follows it. The page state is left as it was.
\<close>

theorem handleSignOut_redirects_only_on_success:
  "(auth_signOut w (tr @ [Call Auth_signOut]) = None \<longrightarrow>
      handleSignOut w (tr, p) =
        (tr @ [Call Auth_signOut, Toast_success ''Signed out successfully'', Navigate ''/auth''], p))
   \<and> (\<forall>err. auth_signOut w (tr @ [Call Auth_signOut]) = Some err \<longrightarrow>
      handleSignOut w (tr, p) = (tr @ [Call Auth_signOut, Toast_error ''Failed to sign out''], p))"
  by (simp add: handleSignOut_def)

theorem handleSignOut_redirects_only_on_success_witness:
  "auth_signOut signed_in ([] @ [Call Auth_signOut]) = None
   \<and> handleSignOut signed_in ([], Index_init) =
        ([Call Auth_signOut, Toast_success ''Signed out successfully'', Navigate ''/auth''], Index_init)
   \<and> auth_signOut signOut_fails ([] @ [Call Auth_signOut]) = Some (Error ''network error'')
   \<and> handleSignOut signOut_fails ([], Index_init) =
        ([Call Auth_signOut, Toast_error ''Failed to sign out''], Index_init)"
  using handleSignOut_redirects_only_on_success [of signed_in "[]" Index_init]
        handleSignOut_redirects_only_on_success [of signOut_fails "[]" Index_init]
  by (simp add: signed_in_def signOut_fails_def)

section \<open>Save Trip (claims C3 and C10)\<close>

text \<open>
  Claim C3 says that Save Trip, given a recommendation text and non-empty destination,
  dates and budget, performs exactly one insert. The handler first asks for the user
  and throws "Not authenticated" when there is none, so these givens alone are not
  enough:
\<close>

theorem save_trip_signed_out_counterexample:
  "aiRecommendations filled_form \<noteq> [] \<and> destination filled_form \<noteq> []
   \<and> startDate filled_form \<noteq> [] \<and> endDate filled_form \<noteq> [] \<and> budget filled_form \<noteq> []
   \<and> issued [] (handleSaveTrip signed_out ([], filled_form)) =
       [Call Auth_getUser, Console_error ''Error saving trip:'', Toast_error ''Not authenticated'']"
  by (simp add: handleSaveTrip_def filled_form_def signed_out_def signed_in_def or_else_def issued_def)

text \<open>
  C3 as amended: given a recommendation text, non-empty destination, start date, end
  date and budget, and a user query that returns a user, Save Trip sends exactly one
  request to the store, an insert into \<open>trips\<close> whose \<open>notes\<close> is the current
  recommendation text and whose \<open>status\<close> is "planned"; when the store reports no
  error for it, the last effect is the navigation to \<open>/trips\<close>.
\<close>

theorem save_trip_one_insert_in_session:
  assumes "aiRecommendations p \<noteq> []"
      and "destination p \<noteq> []" and "startDate p \<noteq> []" and "endDate p \<noteq> []" and "budget p \<noteq> []"
      and "auth_getUser w (tr @ [Call Auth_getUser]) = Some u"
  shows "\<exists>row. filter is_store_request (calls (issued tr (handleSaveTrip w (tr, p))))
                  = [From_insert ''trips'' row]
           \<and> obj_get row ''notes'' = Some (Str (aiRecommendations p))
           \<and> obj_get row ''status'' = Some (Str ''planned'')
           \<and> (db_write w (tr @ [Call Auth_getUser, Call (From_insert ''trips'' row)]) = None \<longrightarrow>
                last (issued tr (handleSaveTrip w (tr, p))) = Navigate ''/trips'')"
  using assms
  by (auto simp add: handleSaveTrip_user Let_def obj_get_def split: option.splits)

theorem save_trip_one_insert_in_session_witness:
  "aiRecommendations filled_form \<noteq> [] \<and> destination filled_form \<noteq> []
   \<and> startDate filled_form \<noteq> [] \<and> endDate filled_form \<noteq> [] \<and> budget filled_form \<noteq> []
   \<and> auth_getUser signed_in ([] @ [Call Auth_getUser]) = Some demo_user
   \<and> (\<exists>row. filter is_store_request (calls (issued [] (handleSaveTrip signed_in ([], filled_form))))
                  = [From_insert ''trips'' row]
           \<and> obj_get row ''notes'' = Some (Str ''Day 1: ...'')
           \<and> obj_get row ''status'' = Some (Str ''planned'')
           \<and> db_write signed_in ([] @ [Call Auth_getUser, Call (From_insert ''trips'' row)]) = None
           \<and> last (issued [] (handleSaveTrip signed_in ([], filled_form))) = Navigate ''/trips'')"
proof -
  have h: "aiRecommendations filled_form \<noteq> []" "destination filled_form \<noteq> []"
    "startDate filled_form \<noteq> []" "endDate filled_form \<noteq> []" "budget filled_form \<noteq> []"
    "auth_getUser signed_in ([] @ [Call Auth_getUser]) = Some demo_user"
    by (simp_all add: filled_form_def signed_in_def)
  have w: "db_write signed_in tr = None" for tr
    by (simp add: signed_in_def)
  have a: "aiRecommendations filled_form = ''Day 1: ...''"
    by (simp add: filled_form_def)
  from save_trip_one_insert_in_session [OF h] h w a show ?thesis
    by auto
qed

text \<open>
  Claim C10: Save Trip checks only that destination, start date, end date and budget
  are non-empty. Whenever these four are non-empty (and the user query returns a user)
  the handler goes straight from the user query to the insert, with no notification
  before it, and the row carries travel type and dates as they are in the form. The
  witness is a form with an empty travel type and an end date four days before the
  start date.
\<close>

theorem save_trip_checks_four_fields_only:
  assumes "destination p \<noteq> []" and "startDate p \<noteq> []" and "endDate p \<noteq> []" and "budget p \<noteq> []"
      and "auth_getUser w (tr @ [Call Auth_getUser]) = Some u"
  shows "\<exists>row rest. issued tr (handleSaveTrip w (tr, p))
                  = Call Auth_getUser # Call (From_insert ''trips'' row) # rest
           \<and> obj_get row ''travel_type'' = Some (Str (travelType p))
           \<and> obj_get row ''start_date'' = Some (Str (startDate p))
           \<and> obj_get row ''end_date'' = Some (Str (endDate p))"
  using assms
  by (auto simp add: handleSaveTrip_user Let_def obj_get_def split: option.splits)

theorem save_trip_checks_four_fields_only_witness:
  "destination reversed_form \<noteq> [] \<and> startDate reversed_form \<noteq> []
   \<and> endDate reversed_form \<noteq> [] \<and> budget reversed_form \<noteq> []
   \<and> auth_getUser signed_in ([] @ [Call Auth_getUser]) = Some demo_user
   \<and> travelType reversed_form = []
   \<and> calculateDays signed_in reversed_form = Num (- 4)
   \<and> (\<exists>row rest. issued [] (handleSaveTrip signed_in ([], reversed_form))
                  = Call Auth_getUser # Call (From_insert ''trips'' row) # rest
           \<and> obj_get row ''travel_type'' = Some (Str [])
           \<and> obj_get row ''start_date'' = Some (Str ''2024-01-05'')
           \<and> obj_get row ''end_date'' = Some (Str ''2024-01-01''))
   \<and> issued [] (handleSaveTrip signed_in ([], reversed_form)) =
       [Call Auth_getUser,
        Call (From_insert ''trips''
          [(''user_id'', Str ''u1''), (''destination'', Str ''Tokyo, Japan''),
           (''start_date'', Str ''2024-01-05''), (''end_date'', Str ''2024-01-01''),
           (''budget'', Number (Num 1000)), (''travel_type'', Str []),
           (''notes'', Str ''Day 1: ...''), (''status'', Str ''planned'')]),
        Toast_success ''Trip saved successfully!'', Navigate ''/trips'']"
proof -
  have full: "issued [] (handleSaveTrip signed_in ([], reversed_form)) =
       [Call Auth_getUser,
        Call (From_insert ''trips''
          [(''user_id'', Str ''u1''), (''destination'', Str ''Tokyo, Japan''),
           (''start_date'', Str ''2024-01-05''), (''end_date'', Str ''2024-01-01''),
           (''budget'', Number (Num 1000)), (''travel_type'', Str []),
           (''notes'', Str ''Day 1: ...''), (''status'', Str ''planned'')]),
        Toast_success ''Trip saved successfully!'', Navigate ''/trips'']"
    by (simp add: handleSaveTrip_def reversed_form_def filled_form_def signed_in_def demo_user_def
        decimal_parseFloat_def digit_def issued_def)
  have h: "destination reversed_form \<noteq> []" "startDate reversed_form \<noteq> []"
    "endDate reversed_form \<noteq> []" "budget reversed_form \<noteq> []"
    "auth_getUser signed_in ([] @ [Call Auth_getUser]) = Some demo_user"
    by (simp_all add: reversed_form_def filled_form_def signed_in_def)
  have v: "travelType reversed_form = []" "startDate reversed_form = ''2024-01-05''"
    "endDate reversed_form = ''2024-01-01''"
    by (simp_all add: reversed_form_def filled_form_def)
  have d: "calculateDays signed_in reversed_form = Num (- 4)"
    by (simp add: calculateDays_def signed_in_def reversed_form_def filled_form_def
        iso_Date_parse_def digit_def valid_date_def DaysInMonth_def MakeDay_def
        DayFromYear_def msPerDay_def InLeapYear_def)
  from save_trip_checks_four_fields_only [OF h] h v d have
    "destination reversed_form \<noteq> [] \<and> startDate reversed_form \<noteq> []
     \<and> endDate reversed_form \<noteq> [] \<and> budget reversed_form \<noteq> []
     \<and> auth_getUser signed_in ([] @ [Call Auth_getUser]) = Some demo_user
     \<and> travelType reversed_form = []
     \<and> calculateDays signed_in reversed_form = Num (- 4)
     \<and> (\<exists>row rest. issued [] (handleSaveTrip signed_in ([], reversed_form))
                  = Call Auth_getUser # Call (From_insert ''trips'' row) # rest
           \<and> obj_get row ''travel_type'' = Some (Str [])
           \<and> obj_get row ''start_date'' = Some (Str ''2024-01-05'')
           \<and> obj_get row ''end_date'' = Some (Str ''2024-01-01''))"
    by simp
  with full show ?thesis
    by blast
qed

section \<open>Facts about the delete, list and insert handlers\<close>

lemma without_id_remove1:
  "distinct (map (\<lambda>r. obj_get r ''id'') rows) \<Longrightarrow> r \<in> set rows \<Longrightarrow>
   obj_get r ''id'' = Some (Str i) \<Longrightarrow> without_id i rows = remove1 r rows"
proof (induction rows)
  case Nil
  then show ?case by simp
next
  case (Cons x rows)
  show ?case
  proof (cases "x = r")
    case True
    with Cons.prems have "\<forall>y\<in>set rows. obj_get y ''id'' \<noteq> Some (Str i)"
      by (auto simp add: image_iff)
    then have "without_id i rows = rows"
      by (simp add: without_id_def)
    with True Cons.prems show ?thesis
      by (simp add: without_id_def)
  next
    case False
    with Cons.prems have "r \<in> set rows" and "obj_get x ''id'' \<noteq> Some (Str i)"
      by (auto simp add: image_iff)
    with Cons False show ?thesis
      by (simp add: without_id_def)
  qed
qed

lemma without_id_length:
  "distinct (map (\<lambda>r. obj_get r ''id'') rows) \<Longrightarrow> r \<in> set rows \<Longrightarrow>
   obj_get r ''id'' = Some (Str i) \<Longrightarrow> length (without_id i rows) + 1 = length rows"
  by (simp add: without_id_remove1 length_remove1) (cases rows; simp)

lemma deleteTrip_result:
  "deleteTrip w i (tr, p) =
     (case db_write w (tr @ [Call (From_delete ''trips'' [(''id'', Str i)])]) of
        Some err \<Rightarrow>
          (tr @ [Call (From_delete ''trips'' [(''id'', Str i)]),
                 Console_error ''Error deleting trip:'', Toast_error ''Failed to delete trip''], p)
      | None \<Rightarrow>
          (tr @ [Call (From_delete ''trips'' [(''id'', Str i)]), Toast_success ''Trip deleted''],
           p\<lparr>trips := without_id i (trips p)\<rparr>))"
  by (simp add: deleteTrip_def without_id_def split: option.splits)

lemma deleteEntry_result:
  "deleteEntry w i (tr, p) =
     (case db_write w (tr @ [Call (From_delete ''diary_entries'' [(''id'', Str i)])]) of
        Some err \<Rightarrow>
          (tr @ [Call (From_delete ''diary_entries'' [(''id'', Str i)]),
                 Console_error ''Error deleting entry:'', Toast_error ''Failed to delete entry''], p)
      | None \<Rightarrow>
          (tr @ [Call (From_delete ''diary_entries'' [(''id'', Str i)]), Toast_success ''Entry deleted''],
           p\<lparr>entries := without_id i (entries p)\<rparr>))"
  by (simp add: deleteEntry_def without_id_def split: option.splits)

lemma deleteDestination_result:
  "deleteDestination w i (tr, p) =
     (case db_write w (tr @ [Call (From_delete ''saved_destinations'' [(''id'', Str i)])]) of
        Some err \<Rightarrow>
          (tr @ [Call (From_delete ''saved_destinations'' [(''id'', Str i)]),
                 Console_error ''Error deleting destination:'',
                 Toast_error ''Failed to remove destination''], p)
      | None \<Rightarrow>
          (tr @ [Call (From_delete ''saved_destinations'' [(''id'', Str i)]),
                 Toast_success ''Destination removed''],
           p\<lparr>destinations := without_id i (destinations p)\<rparr>))"
  by (simp add: deleteDestination_def without_id_def split: option.splits)

lemma fetchTrips_user:
  "auth_getUser w (tr @ [Call Auth_getUser]) = Some u \<Longrightarrow>
   fetchTrips w (tr, p) =
     (let tr2 = tr @ [Call Auth_getUser, Call (list_request ''trips'' ''start_date'' u)]
      in case db_rows w tr2 of
           (data, Some err) \<Rightarrow>
             (tr2 @ [Console_error ''Error fetching trips:'', Toast_error ''Failed to load trips''],
              p\<lparr>loading := False\<rparr>)
         | (data, None) \<Rightarrow> (tr2, p\<lparr>trips := or_empty data, loading := False\<rparr>))"
  by (simp add: fetchTrips_def list_request_def or_empty_def)

lemma fetchEntries_user:
  "auth_getUser w (tr @ [Call Auth_getUser]) = Some u \<Longrightarrow>
   fetchEntries w (tr, p) =
     (let tr2 = tr @ [Call Auth_getUser, Call (list_request ''diary_entries'' ''entry_date'' u)]
      in case db_rows w tr2 of
           (data, Some err) \<Rightarrow>
             (tr2 @ [Console_error ''Error fetching entries:'',
                     Toast_error ''Failed to load diary entries''],
              p\<lparr>loading := False\<rparr>)
         | (data, None) \<Rightarrow> (tr2, p\<lparr>entries := or_empty data, loading := False\<rparr>))"
  by (simp add: fetchEntries_def list_request_def or_empty_def)

lemma fetchDestinations_user:
  "auth_getUser w (tr @ [Call Auth_getUser]) = Some u \<Longrightarrow>
   fetchDestinations w (tr, p) =
     (let tr2 = tr @ [Call Auth_getUser, Call (list_request ''saved_destinations'' ''created_at'' u)]
      in case db_rows w tr2 of
           (data, Some err) \<Rightarrow>
             (tr2 @ [Console_error ''Error fetching destinations:'',
                     Toast_error ''Failed to load destinations''],
              p\<lparr>loading := False\<rparr>)
         | (data, None) \<Rightarrow> (tr2, p\<lparr>destinations := or_empty data, loading := False\<rparr>))"
  by (simp add: fetchDestinations_def list_request_def or_empty_def)

lemma createEntry_success:
  "title p \<noteq> [] \<Longrightarrow> content p \<noteq> [] \<Longrightarrow>
   auth_getUser w (tr @ [Call Auth_getUser]) = Some u \<Longrightarrow>
   db_write w (tr @ [Call Auth_getUser, Call (From_insert ''diary_entries'' (entry_row u p))]) = None \<Longrightarrow>
   createEntry w (tr, p) =
     fetchEntries w
       (tr @ [Call Auth_getUser, Call (From_insert ''diary_entries'' (entry_row u p)),
              Toast_success ''Entry created!''],
        p\<lparr>dialogOpen := False, title := [], content := [], location := []\<rparr>)"
  by (simp add: createEntry_def entry_row_def)

lemma saveDestination_success:
  "name p \<noteq> [] \<Longrightarrow> location p \<noteq> [] \<Longrightarrow>
   auth_getUser w (tr @ [Call Auth_getUser]) = Some u \<Longrightarrow>
   db_write w (tr @ [Call Auth_getUser, Call (From_insert ''saved_destinations'' (destination_row u p))])
     = None \<Longrightarrow>
   saveDestination w (tr, p) =
     fetchDestinations w
       (tr @ [Call Auth_getUser, Call (From_insert ''saved_destinations'' (destination_row u p)),
              Toast_success ''Destination saved!''],
        p\<lparr>dialogOpen := False, name := [], location := [], description := [], category := []\<rparr>)"
  by (simp add: saveDestination_def destination_row_def)

lemma honours_filters_shared_store: "honours_filters shared_store"
  by (simp add: honours_filters_def shared_store_def signed_in_def filtering_store_def list_all_iff)

section \<open>Deleting (claims C5 and C9)\<close>

text \<open>
  Claim C5 ends with: deleting an id that is not in the store yields a failure
  notification and leaves the list unchanged. The handlers never look for the id;
  they follow the error flag of the store's answer. Here every list of the table is
  empty and the delete is answered without error, as a delete that matches no row
  is: the success notification is shown and the row still in the page's list is
  removed.
\<close>

theorem delete_absent_id_counterexample:
  "db_rows signed_in
      [Call Auth_getUser, Call (From_select ''trips'' [(''user_id'', Str ''u1'')] ''start_date'' False)]
     = (Some [], None)
   \<and> deleteTrip signed_in ''t1'' ([], stale_trips) =
       ([Call (From_delete ''trips'' [(''id'', Str ''t1'')]), Toast_success ''Trip deleted''],
        stale_trips\<lparr>trips := []\<rparr>)
   \<and> trips stale_trips \<noteq> []"
  by (simp add: deleteTrip_def signed_in_def stale_trips_def obj_get_def)

text \<open>
  C5 as amended, for \<open>deleteTrip\<close>, \<open>deleteEntry\<close> and \<open>deleteDestination\<close>: when the
  store reports no error, the only effects are the delete request and the success
  notification (no select), and the list becomes the previous list without the rows
  whose \<open>id\<close> is the deleted id; when the ids of a list are distinct and it holds a
  row with that id, exactly that row is removed. When the store reports an error, the
  failure notification is shown and the page state is unchanged. Which of the two
  happens depends on the store's answer alone, also for an id the store does not
  hold.
\<close>

theorem delete_follows_store_answer:
  "(db_write w (tr @ [Call (From_delete ''trips'' [(''id'', Str i)])]) = None \<longrightarrow>
      deleteTrip w i (tr, p) =
        (tr @ [Call (From_delete ''trips'' [(''id'', Str i)]), Toast_success ''Trip deleted''],
         p\<lparr>trips := without_id i (trips p)\<rparr>))
   \<and> (db_write w (tr @ [Call (From_delete ''diary_entries'' [(''id'', Str i)])]) = None \<longrightarrow>
      deleteEntry w i (tr, q) =
        (tr @ [Call (From_delete ''diary_entries'' [(''id'', Str i)]), Toast_success ''Entry deleted''],
         q\<lparr>entries := without_id i (entries q)\<rparr>))
   \<and> (db_write w (tr @ [Call (From_delete ''saved_destinations'' [(''id'', Str i)])]) = None \<longrightarrow>
      deleteDestination w i (tr, s) =
        (tr @ [Call (From_delete ''saved_destinations'' [(''id'', Str i)]),
               Toast_success ''Destination removed''],
         s\<lparr>destinations := without_id i (destinations s)\<rparr>))
   \<and> (distinct (map (\<lambda>r. obj_get r ''id'') rows) \<longrightarrow> r \<in> set rows \<longrightarrow>
        obj_get r ''id'' = Some (Str i) \<longrightarrow>
        without_id i rows = remove1 r rows \<and> length (without_id i rows) + 1 = length rows)
   \<and> (\<forall>err. db_write w (tr @ [Call (From_delete ''trips'' [(''id'', Str i)])]) = Some err \<longrightarrow>
        deleteTrip w i (tr, p) =
          (tr @ [Call (From_delete ''trips'' [(''id'', Str i)]),
                 Console_error ''Error deleting trip:'', Toast_error ''Failed to delete trip''], p))
   \<and> (\<forall>err. db_write w (tr @ [Call (From_delete ''diary_entries'' [(''id'', Str i)])]) = Some err \<longrightarrow>
        deleteEntry w i (tr, q) =
          (tr @ [Call (From_delete ''diary_entries'' [(''id'', Str i)]),
                 Console_error ''Error deleting entry:'', Toast_error ''Failed to delete entry''], q))
   \<and> (\<forall>err. db_write w (tr @ [Call (From_delete ''saved_destinations'' [(''id'', Str i)])]) = Some err \<longrightarrow>
        deleteDestination w i (tr, s) =
          (tr @ [Call (From_delete ''saved_destinations'' [(''id'', Str i)]),
                 Console_error ''Error deleting destination:'',
                 Toast_error ''Failed to remove destination''], s))"
proof -
  have one: "distinct (map (\<lambda>r. obj_get r ''id'') rows) \<longrightarrow> r \<in> set rows \<longrightarrow>
        obj_get r ''id'' = Some (Str i) \<longrightarrow>
        without_id i rows = remove1 r rows \<and> length (without_id i rows) + 1 = length rows"
    using without_id_remove1 [of rows r i] without_id_length [of rows r i] by blast
  show ?thesis
    by (intro conjI one) (simp_all add: deleteTrip_result deleteEntry_result deleteDestination_result)
qed

theorem delete_follows_store_answer_witness:
  "db_write signed_in ([] @ [Call (From_delete ''trips'' [(''id'', Str ''t1'')])]) = None
   \<and> deleteTrip signed_in ''t1'' ([], stale_trips) =
       ([Call (From_delete ''trips'' [(''id'', Str ''t1'')]), Toast_success ''Trip deleted''],
        stale_trips\<lparr>trips := []\<rparr>)
   \<and> db_write store_fails ([] @ [Call (From_delete ''trips'' [(''id'', Str ''t1'')])])
        = Some (Error ''permission denied'')
   \<and> deleteTrip store_fails ''t1'' ([], stale_trips) =
       ([Call (From_delete ''trips'' [(''id'', Str ''t1'')]),
         Console_error ''Error deleting trip:'', Toast_error ''Failed to delete trip''], stale_trips)
   \<and> distinct (map (\<lambda>r. obj_get r ''id'') two_users_table)
   \<and> hd two_users_table \<in> set two_users_table
   \<and> obj_get (hd two_users_table) ''id'' = Some (Str ''t1'')
   \<and> length (without_id ''t1'' two_users_table) + 1 = length two_users_table"
proof -
  have ok: "db_write signed_in ([] @ [Call (From_delete ''trips'' [(''id'', Str ''t1'')])]) = None"
    by (simp add: signed_in_def)
  have ko: "db_write store_fails ([] @ [Call (From_delete ''trips'' [(''id'', Str ''t1'')])])
        = Some (Error ''permission denied'')"
    by (simp add: store_fails_def signed_in_def)
  have rows: "distinct (map (\<lambda>r. obj_get r ''id'') two_users_table)"
    "hd two_users_table \<in> set two_users_table"
    "obj_get (hd two_users_table) ''id'' = Some (Str ''t1'')"
    by (simp_all add: two_users_table_def obj_get_def)
  note t1 = delete_follows_store_answer [where w = signed_in and tr = "[]" and i = "''t1''"
      and p = stale_trips and rows = two_users_table and r = "hd two_users_table"]
  note t2 = delete_follows_store_answer [where w = store_fails and tr = "[]" and i = "''t1''"
      and p = stale_trips]
  have a: "deleteTrip signed_in ''t1'' ([], stale_trips) =
        ([] @ [Call (From_delete ''trips'' [(''id'', Str ''t1'')]), Toast_success ''Trip deleted''],
         stale_trips\<lparr>trips := without_id ''t1'' (trips stale_trips)\<rparr>)"
    by (rule t1 [THEN conjunct1, rule_format, OF ok])
  have b: "length (without_id ''t1'' two_users_table) + 1 = length two_users_table"
    by (rule t1 [THEN conjunct2, THEN conjunct2, THEN conjunct2, THEN conjunct1, rule_format,
          OF rows, THEN conjunct2])
  have c: "deleteTrip store_fails ''t1'' ([], stale_trips) =
          ([] @ [Call (From_delete ''trips'' [(''id'', Str ''t1'')]),
                 Console_error ''Error deleting trip:'', Toast_error ''Failed to delete trip''],
           stale_trips)"
    by (rule t2 [THEN conjunct2, THEN conjunct2, THEN conjunct2, THEN conjunct2, THEN conjunct1,
          rule_format, OF ko])
  have e: "without_id ''t1'' (trips stale_trips) = []"
    by (simp add: without_id_def stale_trips_def obj_get_def)
  from ok ko rows a b c e show ?thesis
    by simp
qed

text \<open>
  Claim C9: the delete request of each page carries the single filter \<open>id = i\<close> and
  no user filter, and it is the only request of the run. The user is never asked for,
  so two worlds \<open>w\<close> and \<open>w'\<close> (two sessions) send the same request for the same id.
\<close>

theorem delete_requests_filter_by_id_only:
  "calls (issued tr (deleteTrip w i (tr, p))) = [From_delete ''trips'' [(''id'', Str i)]]
   \<and> calls (issued tr' (deleteEntry w i (tr', q))) = [From_delete ''diary_entries'' [(''id'', Str i)]]
   \<and> calls (issued tr'' (deleteDestination w i (tr'', s)))
        = [From_delete ''saved_destinations'' [(''id'', Str i)]]
   \<and> calls (issued tr (deleteTrip w i (tr, p))) = calls (issued tr (deleteTrip w' i (tr, p)))
   \<and> calls (issued tr' (deleteEntry w i (tr', q))) = calls (issued tr' (deleteEntry w' i (tr', q)))
   \<and> calls (issued tr'' (deleteDestination w i (tr'', s)))
        = calls (issued tr'' (deleteDestination w' i (tr'', s)))"
  by (simp add: deleteTrip_result deleteEntry_result deleteDestination_result split: option.splits)

section \<open>Listing (claims C7 and C8)\<close>

text \<open>
  Claim C7 says that every successful insert of the Diary and Discover pages is
  followed by a full re-List. What follows the insert is a call of the page's list
  procedure, which asks for the user again before it selects; here the session is
  gone by then: no select is sent, the page navigates to \<open>/auth\<close> and the list is
  what it was.
\<close>

theorem createEntry_session_lost_counterexample:
  "title draft_entry \<noteq> [] \<and> content draft_entry \<noteq> []
   \<and> db_write session_lost
        [Call Auth_getUser, Call (From_insert ''diary_entries'' (entry_row demo_user draft_entry))] = None
   \<and> issued [] (createEntry session_lost ([], draft_entry)) =
        [Call Auth_getUser, Call (From_insert ''diary_entries'' (entry_row demo_user draft_entry)),
         Toast_success ''Entry created!'', Call Auth_getUser, Navigate ''/auth'']
   \<and> filter is_select (calls (issued [] (createEntry session_lost ([], draft_entry)))) = []
   \<and> entries (snd (createEntry session_lost ([], draft_entry))) = entries draft_entry"
  by (simp add: createEntry_def fetchEntries_def session_lost_def signed_in_def draft_entry_def
      entry_row_def issued_def)

text \<open>
  C7 as amended, for \<open>createEntry\<close> and \<open>saveDestination\<close>: after a successful insert
  and its success notification the page's list procedure runs, and nothing is ever
  appended to the list. When the user query of that procedure returns a user, the
  requests of the whole run are user query, insert, user query and the user-scoped
  select; when the select is answered without error the list becomes the rows of
  that answer, and when it is answered with an error the list is unchanged and the
  run ends with the "Failed to load" notification. When the user query finds no
  user, no select is sent, the run ends with the navigation to \<open>/auth\<close> and the list
  is unchanged.
\<close>

theorem insert_success_runs_list_procedure:
  "(title p \<noteq> [] \<longrightarrow> content p \<noteq> [] \<longrightarrow>
    auth_getUser w (tr @ [Call Auth_getUser]) = Some u \<longrightarrow>
    db_write w (tr @ [Call Auth_getUser, Call (From_insert ''diary_entries'' (entry_row u p))]) = None \<longrightarrow>
      (auth_getUser w
          (after_insert tr ''diary_entries'' (entry_row u p) ''Entry created!'' @ [Call Auth_getUser])
         = None \<longrightarrow>
         issued tr (createEntry w (tr, p)) =
           [Call Auth_getUser, Call (From_insert ''diary_entries'' (entry_row u p)),
            Toast_success ''Entry created!'', Call Auth_getUser, Navigate ''/auth'']
         \<and> entries (snd (createEntry w (tr, p))) = entries p)
      \<and> (auth_getUser w
          (after_insert tr ''diary_entries'' (entry_row u p) ''Entry created!'' @ [Call Auth_getUser])
         = Some u' \<longrightarrow>
         calls (issued tr (createEntry w (tr, p))) =
           [Auth_getUser, From_insert ''diary_entries'' (entry_row u p),
            Auth_getUser, list_request ''diary_entries'' ''entry_date'' u']
         \<and> (db_rows w
              (after_insert tr ''diary_entries'' (entry_row u p) ''Entry created!''
                 @ [Call Auth_getUser, Call (list_request ''diary_entries'' ''entry_date'' u')])
               = (data, None) \<longrightarrow>
             entries (snd (createEntry w (tr, p))) = or_empty data)
         \<and> (db_rows w
              (after_insert tr ''diary_entries'' (entry_row u p) ''Entry created!''
                 @ [Call Auth_getUser, Call (list_request ''diary_entries'' ''entry_date'' u')])
               = (data, Some err) \<longrightarrow>
             entries (snd (createEntry w (tr, p))) = entries p
             \<and> last (issued tr (createEntry w (tr, p))) = Toast_error ''Failed to load diary entries'')))
   \<and> (name q \<noteq> [] \<longrightarrow> location q \<noteq> [] \<longrightarrow>
    auth_getUser w (tr @ [Call Auth_getUser]) = Some u \<longrightarrow>
    db_write w (tr @ [Call Auth_getUser, Call (From_insert ''saved_destinations'' (destination_row u q))])
      = None \<longrightarrow>
      (auth_getUser w
          (after_insert tr ''saved_destinations'' (destination_row u q) ''Destination saved!''
             @ [Call Auth_getUser])
         = None \<longrightarrow>
         issued tr (saveDestination w (tr, q)) =
           [Call Auth_getUser, Call (From_insert ''saved_destinations'' (destination_row u q)),
            Toast_success ''Destination saved!'', Call Auth_getUser, Navigate ''/auth'']
         \<and> destinations (snd (saveDestination w (tr, q))) = destinations q)
      \<and> (auth_getUser w
          (after_insert tr ''saved_destinations'' (destination_row u q) ''Destination saved!''
             @ [Call Auth_getUser])
         = Some u' \<longrightarrow>
         calls (issued tr (saveDestination w (tr, q))) =
           [Auth_getUser, From_insert ''saved_destinations'' (destination_row u q),
            Auth_getUser, list_request ''saved_destinations'' ''created_at'' u']
         \<and> (db_rows w
              (after_insert tr ''saved_destinations'' (destination_row u q) ''Destination saved!''
                 @ [Call Auth_getUser, Call (list_request ''saved_destinations'' ''created_at'' u')])
               = (data, None) \<longrightarrow>
             destinations (snd (saveDestination w (tr, q))) = or_empty data)
         \<and> (db_rows w
              (after_insert tr ''saved_destinations'' (destination_row u q) ''Destination saved!''
                 @ [Call Auth_getUser, Call (list_request ''saved_destinations'' ''created_at'' u')])
               = (data, Some err) \<longrightarrow>
             destinations (snd (saveDestination w (tr, q))) = destinations q
             \<and> last (issued tr (saveDestination w (tr, q))) = Toast_error ''Failed to load destinations'')))"
  by (intro conjI impI)
     (simp_all add: createEntry_success saveDestination_success after_insert_def
        fetchEntries_no_user fetchEntries_user fetchDestinations_no_user fetchDestinations_user
        Let_def split: prod.splits option.splits)

theorem insert_success_runs_list_procedure_witness:
  "title draft_entry \<noteq> [] \<and> content draft_entry \<noteq> []
   \<and> name draft_destination \<noteq> [] \<and> location draft_destination \<noteq> []
   \<and> auth_getUser shared_store ([] @ [Call Auth_getUser]) = Some demo_user
   \<and> db_write shared_store
        ([] @ [Call Auth_getUser, Call (From_insert ''diary_entries'' (entry_row demo_user draft_entry))])
       = None
   \<and> entries (snd (createEntry shared_store ([], draft_entry))) = [hd two_users_table]
   \<and> destinations (snd (saveDestination shared_store ([], draft_destination))) = [hd two_users_table]
   \<and> entries draft_entry = [[(''id'', Str ''e0''), (''user_id'', Str ''u1'')]]
   \<and> entries (snd (createEntry session_lost ([], draft_entry))) = entries draft_entry
   \<and> issued [] (createEntry session_lost ([], draft_entry)) =
        [Call Auth_getUser, Call (From_insert ''diary_entries'' (entry_row demo_user draft_entry)),
         Toast_success ''Entry created!'', Call Auth_getUser, Navigate ''/auth'']
   \<and> entries (snd (createEntry list_fails ([], draft_entry))) = entries draft_entry
   \<and> last (issued [] (createEntry list_fails ([], draft_entry)))
        = Toast_error ''Failed to load diary entries''"
proof -
  have h: "title draft_entry \<noteq> []" "content draft_entry \<noteq> []"
    "name draft_destination \<noteq> []" "location draft_destination \<noteq> []"
    by (simp_all add: draft_entry_def draft_destination_def)
  have old: "entries draft_entry = [[(''id'', Str ''e0''), (''user_id'', Str ''u1'')]]"
    by (simp add: draft_entry_def)
  have u: "auth_getUser shared_store tr = Some demo_user" for tr
    by (simp add: shared_store_def signed_in_def)
  have wr: "db_write shared_store tr = None" for tr
    by (simp add: shared_store_def signed_in_def)
  have rows: "db_rows shared_store (tr @ [Call Auth_getUser, Call (list_request t f demo_user)])
      = (Some [hd two_users_table], None)" for tr t f
    by (simp add: shared_store_def signed_in_def filtering_store_def list_request_def
        two_users_table_def matches_def obj_get_def demo_user_def)
  have u1: "auth_getUser session_lost ([] @ [Call Auth_getUser]) = Some demo_user"
    by (simp add: session_lost_def signed_in_def)
  have u2: "auth_getUser session_lost
      (after_insert [] ''diary_entries'' (entry_row demo_user draft_entry) ''Entry created!''
         @ [Call Auth_getUser]) = None"
    by (simp add: session_lost_def signed_in_def after_insert_def)
  have wr1: "db_write session_lost tr = None" for tr
    by (simp add: session_lost_def signed_in_def)
  have u3: "auth_getUser list_fails tr = Some demo_user" for tr
    by (simp add: list_fails_def signed_in_def)
  have wr3: "db_write list_fails tr = None" for tr
    by (simp add: list_fails_def signed_in_def)
  have rows3: "db_rows list_fails tr = (None, Some (Error ''timeout''))" for tr
    by (simp add: list_fails_def signed_in_def)
  note t = insert_success_runs_list_procedure [where w = shared_store and tr = "[]"
      and p = draft_entry and q = draft_destination and u = demo_user and u' = demo_user
      and data = "Some [hd two_users_table]"]
  note tl = insert_success_runs_list_procedure [where w = session_lost and tr = "[]"
      and p = draft_entry and u = demo_user]
  note tf = insert_success_runs_list_procedure [where w = list_fails and tr = "[]"
      and p = draft_entry and u = demo_user and u' = demo_user
      and data = None and err = "Error ''timeout''"]
  have e: "entries (snd (createEntry shared_store ([], draft_entry)))
       = or_empty (Some [hd two_users_table])"
    by (rule t [THEN conjunct1, rule_format, OF h(1) h(2) u wr, THEN conjunct2, rule_format,
          OF u, THEN conjunct2, THEN conjunct1, rule_format, OF rows])
  have d: "destinations (snd (saveDestination shared_store ([], draft_destination)))
       = or_empty (Some [hd two_users_table])"
    by (rule t [THEN conjunct2, rule_format, OF h(3) h(4) u wr, THEN conjunct2, rule_format,
          OF u, THEN conjunct2, THEN conjunct1, rule_format, OF rows])
  note lost = tl [THEN conjunct1, rule_format, OF h(1) h(2) u1 wr1, THEN conjunct1, rule_format, OF u2]
  note fails = tf [THEN conjunct1, rule_format, OF h(1) h(2) u3 wr3, THEN conjunct2, rule_format,
      OF u3, THEN conjunct2, THEN conjunct2, rule_format, OF rows3]
  from h old u [of "[] @ [Call Auth_getUser]"]
    wr [of "[] @ [Call Auth_getUser, Call (From_insert ''diary_entries'' (entry_row demo_user draft_entry))]"]
    e d lost fails
  show ?thesis
    by (simp add: or_empty_def)
qed

text \<open>
  Claim C8: the list procedure of each page sends no select when the user query finds
  no user, and otherwise exactly one, whose only filter is \<open>user_id\<close> equal to the id
  of that user. When the store honours the filters of a select and answers without
  error, every row of the page's list afterwards has that user's id as \<open>user_id\<close>.
\<close>

theorem lists_are_user_scoped:
  "filter is_select (calls (issued tr (fetchTrips w (tr, p)))) =
     (case auth_getUser w (tr @ [Call Auth_getUser]) of
        None \<Rightarrow> []
      | Some u \<Rightarrow> [From_select ''trips'' [(''user_id'', Str (user_id u))] ''start_date'' False])
   \<and> filter is_select (calls (issued tr (fetchEntries w (tr, q)))) =
     (case auth_getUser w (tr @ [Call Auth_getUser]) of
        None \<Rightarrow> []
      | Some u \<Rightarrow> [From_select ''diary_entries'' [(''user_id'', Str (user_id u))] ''entry_date'' False])
   \<and> filter is_select (calls (issued tr (fetchDestinations w (tr, s)))) =
     (case auth_getUser w (tr @ [Call Auth_getUser]) of
        None \<Rightarrow> []
      | Some u \<Rightarrow> [From_select ''saved_destinations'' [(''user_id'', Str (user_id u))] ''created_at'' False])
   \<and> (honours_filters w \<longrightarrow> auth_getUser w (tr @ [Call Auth_getUser]) = Some u \<longrightarrow>
        (db_rows w (tr @ [Call Auth_getUser, Call (list_request ''trips'' ''start_date'' u)])
            = (data, None) \<longrightarrow>
          (\<forall>r\<in>set (trips (snd (fetchTrips w (tr, p)))). obj_get r ''user_id'' = Some (Str (user_id u))))
        \<and> (db_rows w (tr @ [Call Auth_getUser, Call (list_request ''diary_entries'' ''entry_date'' u)])
            = (data, None) \<longrightarrow>
          (\<forall>r\<in>set (entries (snd (fetchEntries w (tr, q)))). obj_get r ''user_id'' = Some (Str (user_id u))))
        \<and> (db_rows w (tr @ [Call Auth_getUser, Call (list_request ''saved_destinations'' ''created_at'' u)])
            = (data, None) \<longrightarrow>
          (\<forall>r\<in>set (destinations (snd (fetchDestinations w (tr, s)))).
              obj_get r ''user_id'' = Some (Str (user_id u)))))"
proof -
  have sel: "filter is_select (calls (issued tr (fetchTrips w (tr, p)))) =
     (case auth_getUser w (tr @ [Call Auth_getUser]) of
        None \<Rightarrow> []
      | Some u \<Rightarrow> [From_select ''trips'' [(''user_id'', Str (user_id u))] ''start_date'' False])"
    by (cases "auth_getUser w (tr @ [Call Auth_getUser])")
       (auto simp add: fetchTrips_no_user fetchTrips_user list_request_def Let_def
          split: prod.splits option.splits)
  have sel2: "filter is_select (calls (issued tr (fetchEntries w (tr, q)))) =
     (case auth_getUser w (tr @ [Call Auth_getUser]) of
        None \<Rightarrow> []
      | Some u \<Rightarrow> [From_select ''diary_entries'' [(''user_id'', Str (user_id u))] ''entry_date'' False])"
    by (cases "auth_getUser w (tr @ [Call Auth_getUser])")
       (auto simp add: fetchEntries_no_user fetchEntries_user list_request_def Let_def
          split: prod.splits option.splits)
  have sel3: "filter is_select (calls (issued tr (fetchDestinations w (tr, s)))) =
     (case auth_getUser w (tr @ [Call Auth_getUser]) of
        None \<Rightarrow> []
      | Some u \<Rightarrow> [From_select ''saved_destinations'' [(''user_id'', Str (user_id u))] ''created_at'' False])"
    by (cases "auth_getUser w (tr @ [Call Auth_getUser])")
       (auto simp add: fetchDestinations_no_user fetchDestinations_user list_request_def Let_def
          split: prod.splits option.splits)
  have own: "\<forall>r\<in>set (or_empty data). obj_get r ''user_id'' = Some (Str (user_id u))"
    if "honours_filters w" and "db_rows w (tr0 @ [Call (list_request t f u)]) = (data, None)"
    for tr0 t f
  proof (cases data)
    case None
    then show ?thesis by (simp add: or_empty_def)
  next
    case (Some rows)
    with that have "list_all (matches [(''user_id'', Str (user_id u))]) rows"
      unfolding honours_filters_def list_request_def by blast
    with Some show ?thesis
      by (simp add: or_empty_def matches_def list_all_iff)
  qed
  show ?thesis
    using own [of "tr @ [Call Auth_getUser]"]
    by (intro conjI sel sel2 sel3 impI)
       (simp_all add: fetchTrips_user fetchEntries_user fetchDestinations_user)
qed

theorem lists_are_user_scoped_witness:
  "auth_getUser shared_store ([] @ [Call Auth_getUser]) = Some demo_user
   \<and> db_rows shared_store ([] @ [Call Auth_getUser, Call (list_request ''trips'' ''start_date'' demo_user)])
        = (Some [hd two_users_table], None)
   \<and> trips (snd (fetchTrips shared_store ([], Trips_init))) = [hd two_users_table]
   \<and> obj_get (hd two_users_table) ''user_id'' = Some (Str (user_id demo_user))
   \<and> length two_users_table = 2
   \<and> filter is_select (calls (issued [] (fetchTrips shared_store ([], Trips_init))))
        = [From_select ''trips'' [(''user_id'', Str ''u1'')] ''start_date'' False]"
proof -
  have u: "auth_getUser shared_store ([] @ [Call Auth_getUser]) = Some demo_user"
    by (simp add: shared_store_def signed_in_def)
  have rows: "db_rows shared_store
      ([] @ [Call Auth_getUser, Call (list_request ''trips'' ''start_date'' demo_user)])
        = (Some [hd two_users_table], None)"
    by (simp add: shared_store_def signed_in_def filtering_store_def list_request_def
        two_users_table_def matches_def obj_get_def demo_user_def)
  note t = lists_are_user_scoped [where w = shared_store and tr = "[]" and p = Trips_init
      and u = demo_user and data = "Some [hd two_users_table]"]
  have own: "\<forall>r\<in>set (trips (snd (fetchTrips shared_store ([], Trips_init)))).
          obj_get r ''user_id'' = Some (Str (user_id demo_user))"
    by (rule t [THEN conjunct2, THEN conjunct2, THEN conjunct2, THEN mp,
          OF honours_filters_shared_store, THEN mp, OF u, THEN conjunct1, THEN mp, OF rows])
  have sel: "filter is_select (calls (issued [] (fetchTrips shared_store ([], Trips_init))))
        = [From_select ''trips'' [(''user_id'', Str ''u1'')] ''start_date'' False]"
    using t [THEN conjunct1] u by (simp add: demo_user_def)
  have l: "trips (snd (fetchTrips shared_store ([], Trips_init))) = [hd two_users_table]"
    using u rows by (simp add: fetchTrips_user or_empty_def)
  from own l have o: "obj_get (hd two_users_table) ''user_id'' = Some (Str (user_id demo_user))"
    by simp
  have n: "length two_users_table = 2"
    by (simp add: two_users_table_def)
  from u rows sel l o n show ?thesis
    by blast
qed

section \<open>Day counts and the validation of Get Recommendations (claims C4 and C6)\<close>

text \<open>
  The day number grows by the length of the year from one year to the next, and
  within a year with month and day, so it follows the calendar order of valid dates.
\<close>

lemma div_next:
  fixes a k :: int
  assumes "0 < k"
  shows "(a + 1) div k = a div k + (if (a + 1) mod k = 0 then 1 else 0)"
proof -
  have a: "a = k * (a div k) + a mod k" by simp
  have r: "0 \<le> a mod k" "a mod k < k" using assms by simp_all
  show ?thesis
  proof (cases "a mod k = k - 1")
    case True
    with a have e: "a + 1 = k * (a div k + 1) + 0"
      by (simp add: algebra_simps)
    have "(a + 1) div k = a div k + 1"
      using e assms by (intro int_div_pos_eq [where r = 0]) simp_all
    moreover have "(a + 1) mod k = 0"
      using e assms by (intro int_mod_pos_eq [where q = "a div k + 1"]) simp_all
    ultimately show ?thesis by simp
  next
    case False
    from a have e: "a + 1 = k * (a div k) + (a mod k + 1)" by simp
    from False r have b: "0 \<le> a mod k + 1" "a mod k + 1 < k" by simp_all
    have "(a + 1) div k = a div k"
      using e b by (intro int_div_pos_eq [where r = "a mod k + 1"]) simp_all
    moreover have "(a + 1) mod k = a mod k + 1"
      using e b by (intro int_mod_pos_eq [where q = "a div k"]) simp_all
    ultimately show ?thesis using r by simp
  qed
qed

lemma mod_shift: "(y - k * c) mod k = y mod k" for y k c :: int
proof -
  have "y - k * c = y + k * (- c)" by simp
  then show ?thesis by (simp only: mod_mult_self2)
qed

lemma DayFromYear_next:
  "DayFromYear (y + 1) = DayFromYear y + 365 + (if InLeapYear y then 1 else 0)"
proof -
  have m4: "(y - 1968) mod 4 = y mod 4" using mod_shift [of y 4 492] by simp
  have m100: "(y - 1900) mod 100 = y mod 100" using mod_shift [of y 100 19] by simp
  have m400: "(y - 1600) mod 400 = y mod 400" using mod_shift [of y 400 4] by simp
  have d4: "(y - 1968) div 4 = (y - 1969) div 4 + (if y mod 4 = 0 then 1 else 0)"
    using div_next [of 4 "y - 1969"] m4 by simp
  have d100: "(y - 1900) div 100 = (y - 1901) div 100 + (if y mod 100 = 0 then 1 else 0)"
    using div_next [of 100 "y - 1901"] m100 by simp
  have d400: "(y - 1600) div 400 = (y - 1601) div 400 + (if y mod 400 = 0 then 1 else 0)"
    using div_next [of 400 "y - 1601"] m400 by simp
  have c1: "y mod 4 = 0" if "y mod 100 = 0"
    using that mod_mod_cancel [of 4 100 y] by simp
  have c2: "y mod 100 = 0" if "y mod 400 = 0"
    using that mod_mod_cancel [of 100 400 y] by simp
  have p: "0 \<le> y mod 100" by simp
  have "DayFromYear (y + 1)
      = 365 * (y - 1969) + (y - 1968) div 4 - (y - 1900) div 100 + (y - 1600) div 400"
    by (simp add: DayFromYear_def)
  also have "\<dots> = DayFromYear y + 365 + (if y mod 4 = 0 then 1 else 0)
      - (if y mod 100 = 0 then 1 else 0) + (if y mod 400 = 0 then 1 else 0)"
    unfolding d4 d100 d400 by (simp add: DayFromYear_def)
  also have "\<dots> = DayFromYear y + 365 + (if InLeapYear y then 1 else 0)"
    using c1 c2 p by (auto simp add: InLeapYear_def)
  finally show ?thesis .
qed

lemma DayFromYear_mono: "y \<le> y' \<Longrightarrow> DayFromYear y \<le> DayFromYear y'"
proof (induction y' rule: int_ge_induct)
  case base
  show ?case by simp
next
  case (step i)
  then show ?case by (simp add: DayFromYear_next)
qed

lemma DaysInMonth_pos: "28 \<le> DaysInMonth y m"
  by (simp add: DaysInMonth_def)

lemma days_before_step: "0 \<le> m \<Longrightarrow>
  sum_list (map (DaysInMonth y) [1..m + 1]) = sum_list (map (DaysInMonth y) [1..m]) + DaysInMonth y (m + 1)"
  using upto_rec2 [of 1 "m + 1"] by simp

lemma days_before_mono:
  assumes "0 \<le> m" and "m \<le> m'"
  shows "sum_list (map (DaysInMonth y) [1..m]) \<le> sum_list (map (DaysInMonth y) [1..m'])"
  using \<open>m \<le> m'\<close>
proof (induct rule: int_ge_induct)
  case base
  show ?case by simp
next
  case (step i)
  have "28 \<le> DaysInMonth y (i + 1)" by (rule DaysInMonth_pos)
  with step \<open>0 \<le> m\<close> show ?case by (simp add: days_before_step)
qed

lemma year_length:
  "sum_list (map (DaysInMonth y) [1..12]) = 365 + (if InLeapYear y then 1 else 0)"
  by (simp add: upto_rec1 DaysInMonth_def)

lemma day_number_bounds:
  assumes "valid_date (y, m, d)"
  shows "DayFromYear y + sum_list (map (DaysInMonth y) [1..m - 1]) \<le> MakeDay y m d"
    and "MakeDay y m d < DayFromYear y + sum_list (map (DaysInMonth y) [1..m])"
    and "MakeDay y m d < DayFromYear (y + 1)"
proof -
  from assms have m: "1 \<le> m" "m \<le> 12" and d: "1 \<le> d" "d \<le> DaysInMonth y m"
    by (simp_all add: valid_date_def)
  show lo: "DayFromYear y + sum_list (map (DaysInMonth y) [1..m - 1]) \<le> MakeDay y m d"
    using d by (simp add: MakeDay_def)
  have split: "sum_list (map (DaysInMonth y) [1..m])
      = sum_list (map (DaysInMonth y) [1..m - 1]) + DaysInMonth y m"
    using m days_before_step [of "m - 1" y] by simp
  show up: "MakeDay y m d < DayFromYear y + sum_list (map (DaysInMonth y) [1..m])"
    using d split by (simp add: MakeDay_def)
  have "sum_list (map (DaysInMonth y) [1..m]) \<le> sum_list (map (DaysInMonth y) [1..12])"
    using m by (intro days_before_mono) simp_all
  with up show "MakeDay y m d < DayFromYear (y + 1)"
    by (simp add: year_length DayFromYear_next split: if_splits)
qed

lemma day_number_mono:
  assumes "valid_date a" and "valid_date b" and "date_le a b"
  shows "day_number a \<le> day_number b"
proof -
  obtain y1 m1 d1 where a: "a = (y1, m1, d1)" by (cases a)
  obtain y2 m2 d2 where b: "b = (y2, m2, d2)" by (cases b)
  from assms a b have va: "valid_date (y1, m1, d1)" and vb: "valid_date (y2, m2, d2)"
    by simp_all
  from assms(3) a b consider
      (year) "y1 < y2"
    | (month) "y1 = y2" "m1 < m2"
    | (day) "y1 = y2" "m1 = m2" "d1 \<le> d2"
    by (auto simp add: date_le_def)
  then have "MakeDay y1 m1 d1 \<le> MakeDay y2 m2 d2"
  proof cases
    case year
    then have "DayFromYear (y1 + 1) \<le> DayFromYear y2"
      by (intro DayFromYear_mono) simp
    moreover have "DayFromYear y2 \<le> MakeDay y2 m2 d2"
    proof -
      from vb have "1 \<le> m2" by (simp add: valid_date_def)
      then have "0 \<le> sum_list (map (DaysInMonth y2) [1..m2 - 1])"
        using days_before_mono [of 0 "m2 - 1" y2] by simp
      with day_number_bounds(1) [OF vb] show ?thesis by simp
    qed
    ultimately show ?thesis
      using day_number_bounds(3) [OF va] by simp
  next
    case month
    from va month have "sum_list (map (DaysInMonth y1) [1..m1])
        \<le> sum_list (map (DaysInMonth y1) [1..m2 - 1])"
      by (intro days_before_mono) (simp_all add: valid_date_def)
    with day_number_bounds(2) [OF va] day_number_bounds(1) [OF vb] month show ?thesis
      by simp
  next
    case day
    then show ?thesis by (simp add: MakeDay_def)
  qed
  with a b show ?thesis by (simp add: day_number_def)
qed

lemma iso_date_fields_nonempty: "iso_date_fields s = Some a \<Longrightarrow> s \<noteq> []"
  by auto

lemma iso_Date_parse_valid:
  "iso_date_fields s = Some a \<Longrightarrow> valid_date a \<Longrightarrow>
   iso_Date_parse s = Num (of_int (day_number a * msPerDay))"
  by (cases a) (simp add: iso_Date_parse_def day_number_def)

lemma ceiling_days:
  "\<lceil>(real_of_int b * 86400000 - real_of_int a * 86400000) / 86400000\<rceil> = b - a"
proof -
  have "(real_of_int b * 86400000 - real_of_int a * 86400000) / 86400000 = real_of_int (b - a)"
    by simp
  then show ?thesis
    by (simp only: ceiling_of_int)
qed

lemma calculateDays_iso:
  assumes "Date_parse w = iso_Date_parse"
      and "iso_date_fields (startDate p) = Some a" and "valid_date a"
      and "iso_date_fields (endDate p) = Some b" and "valid_date b"
  shows "calculateDays w p = Num (of_int (day_number b - day_number a))"
  using assms
  by (simp add: calculateDays_def iso_Date_parse_valid iso_date_fields_nonempty msPerDay_def
      ceiling_days)

lemma rejects_nonpositive:
  "js_le (calculateDays w p) (Num 0) \<Longrightarrow> validation_rejects w tr p"
  by (simp add: validation_rejects_def handleGetRecommendations_def)


lemma calculateDays_timestamps:
  assumes "Date_parse w (startDate p) = Num s" and "Date_parse w (endDate p) = Num e" and "e \<le> s"
  shows "js_le (calculateDays w p) (Num 0)"
proof -
  from \<open>e \<le> s\<close> have "(e - s) / 86400000 \<le> 0" by simp
  then have "\<lceil>(e - s) / 86400000\<rceil> \<le> 0" by (simp only: ceiling_le_zero)
  with assms show ?thesis by (simp add: calculateDays_def)
qed


text \<open>
  Claim C4: with dates read as the date controls write them, the day count from
  2024-01-01 to 2024-01-05 is 4; for valid dates it is the difference of their day
  numbers, and when the end date is equal to or before the start date in the calendar
  the request is rejected: the only effect is a validation notification, the
  recommendation function is not invoked and the state is unchanged. The same holds
  for any reading of dates as soon as the time value of the end date does not exceed
  that of the start date.
\<close>

theorem day_count_and_date_order:
  "(Date_parse w = iso_Date_parse \<longrightarrow> startDate p = ''2024-01-01'' \<longrightarrow> endDate p = ''2024-01-05'' \<longrightarrow>
      calculateDays w p = Num 4)
   \<and> (Date_parse w = iso_Date_parse \<longrightarrow>
       iso_date_fields (startDate p) = Some a \<longrightarrow> valid_date a \<longrightarrow>
       iso_date_fields (endDate p) = Some b \<longrightarrow> valid_date b \<longrightarrow>
         calculateDays w p = Num (of_int (day_number b - day_number a))
         \<and> (date_le b a \<longrightarrow> validation_rejects w tr p))
   \<and> (Date_parse w (startDate p) = Num s \<longrightarrow> Date_parse w (endDate p) = Num e \<longrightarrow> e \<le> s \<longrightarrow>
         validation_rejects w tr p)"
proof (intro conjI impI)
  assume iso: "Date_parse w = iso_Date_parse"
    and "startDate p = ''2024-01-01''" and "endDate p = ''2024-01-05''"
  then show "calculateDays w p = Num 4"
    by (simp add: calculateDays_def iso_Date_parse_def digit_def valid_date_def DaysInMonth_def
        MakeDay_def DayFromYear_def msPerDay_def InLeapYear_def)
next
  assume iso: "Date_parse w = iso_Date_parse"
    and a: "iso_date_fields (startDate p) = Some a" "valid_date a"
    and b: "iso_date_fields (endDate p) = Some b" "valid_date b"
  show d: "calculateDays w p = Num (of_int (day_number b - day_number a))"
    using iso a b by (rule calculateDays_iso)
  assume "date_le b a"
  with a b have "day_number b \<le> day_number a"
    by (intro day_number_mono)
  with d have "js_le (calculateDays w p) (Num 0)"
    by simp
  then show "validation_rejects w tr p"
    by (rule rejects_nonpositive)
next
  assume "Date_parse w (startDate p) = Num s" and "Date_parse w (endDate p) = Num e" and "e \<le> s"
  then have "js_le (calculateDays w p) (Num 0)"
    by (rule calculateDays_timestamps)
  then show "validation_rejects w tr p"
    by (rule rejects_nonpositive)
qed

theorem day_count_and_date_order_witness:
  "Date_parse signed_in = iso_Date_parse
   \<and> startDate filled_form = ''2024-01-01'' \<and> endDate filled_form = ''2024-01-05''
   \<and> calculateDays signed_in filled_form = Num 4
   \<and> iso_date_fields (startDate backdated_form) = Some (2024, 1, 5) \<and> valid_date (2024, 1, 5)
   \<and> iso_date_fields (endDate backdated_form) = Some (2024, 1, 1) \<and> valid_date (2024, 1, 1)
   \<and> date_le (2024, 1, 1) (2024, 1, 5)
   \<and> day_number (2024, 1, 1) - day_number (2024, 1, 5) = - 4
   \<and> calculateDays signed_in backdated_form = Num (- 4)
   \<and> handleGetRecommendations signed_in ([], backdated_form)
       = ([Toast_error ''End date must be after start date''], backdated_form)
   \<and> Date_parse signed_in (startDate backdated_form) = Num 1704412800000
   \<and> Date_parse signed_in (endDate backdated_form) = Num 1704067200000"
proof -
  have iso: "Date_parse signed_in = iso_Date_parse"
    by (simp add: signed_in_def)
  have f: "startDate filled_form = ''2024-01-01''" "endDate filled_form = ''2024-01-05''"
    by (simp_all add: filled_form_def)
  have sb: "iso_date_fields (startDate backdated_form) = Some (2024, 1, 5)"
    and eb: "iso_date_fields (endDate backdated_form) = Some (2024, 1, 1)"
    by (simp_all add: backdated_form_def filled_form_def digit_def)
  have v: "valid_date (2024, 1, 5)" "valid_date (2024, 1, 1)"
    by (simp_all add: valid_date_def DaysInMonth_def)
  have le: "date_le (2024, 1, 1) (2024, 1, 5)"
    by (simp add: date_le_def)
  have n: "day_number (2024, 1, 1) - day_number (2024, 1, 5) = - 4"
    by (simp add: day_number_def MakeDay_def)
  have ts: "Date_parse signed_in (startDate backdated_form) = Num 1704412800000"
    "Date_parse signed_in (endDate backdated_form) = Num 1704067200000"
    by (simp_all add: signed_in_def backdated_form_def filled_form_def iso_Date_parse_def digit_def
        valid_date_def DaysInMonth_def MakeDay_def DayFromYear_def msPerDay_def InLeapYear_def)
  note t1 = day_count_and_date_order [where w = signed_in and p = filled_form]
  note t2 = day_count_and_date_order [where w = signed_in and p = backdated_form and tr = "[]"
      and a = "(2024, 1, 5)" and b = "(2024, 1, 1)"]
  have c1: "calculateDays signed_in filled_form = Num 4"
    by (rule t1 [THEN conjunct1, rule_format, OF iso f])
  have c2: "calculateDays signed_in backdated_form
      = Num (of_int (day_number (2024, 1, 1) - day_number (2024, 1, 5)))"
    by (rule t2 [THEN conjunct2, THEN conjunct1, rule_format, OF iso sb v(1) eb v(2), THEN conjunct1])
  have c3: "validation_rejects signed_in [] backdated_form"
    by (rule t2 [THEN conjunct2, THEN conjunct1, rule_format, OF iso sb v(1) eb v(2),
          THEN conjunct2, rule_format, OF le])
  have filled: "destination backdated_form \<noteq> []" "budget backdated_form \<noteq> []"
    "travelType backdated_form \<noteq> []" "selectedInterests backdated_form \<noteq> []"
    by (simp_all add: backdated_form_def filled_form_def)
  from c2 n have c2': "calculateDays signed_in backdated_form = Num (- 4)"
    by simp
  from c3 filled c2' have c4: "handleGetRecommendations signed_in ([], backdated_form)
       = ([Toast_error ''End date must be after start date''], backdated_form)"
    by (auto simp add: validation_rejects_def handleGetRecommendations_def)
  from iso f sb eb v le n ts c1 c2' c4 show ?thesis
    by simp
qed





end
